theory Spec2Isabelle
  imports Complex_Main
begin

section \<open>Python strings and \<open>str.strip\<close>\<close>

text \<open>
  A Python \<open>str\<close> is a sequence of Unicode code points, so a string is a list of
  code points here. \<open>str\<close> writes an ASCII literal of the source as such a list.
\<close>

type_synonym pystr = "nat list"

definition str :: "string \<Rightarrow> pystr" where
  "str s = map of_char s"

text \<open>
  \<open>str.strip()\<close> without argument removes leading and trailing whitespace, where
  whitespace is what \<open>str.isspace\<close> accepts: the code points of CPython's
  whitespace table.
\<close>

definition py_isspace :: "nat \<Rightarrow> bool" where
  "py_isspace c \<longleftrightarrow>
     (9 \<le> c \<and> c \<le> 13) \<or> (28 \<le> c \<and> c \<le> 32) \<or> c = 133 \<or> c = 160 \<or> c = 5760 \<or>
     (8192 \<le> c \<and> c \<le> 8202) \<or> c = 8232 \<or> c = 8233 \<or> c = 8239 \<or> c = 8287 \<or> c = 12288"

definition py_strip :: "pystr \<Rightarrow> pystr" where
  "py_strip s = rev (dropWhile py_isspace (rev (dropWhile py_isspace s)))"

section \<open>Band names\<close>

text \<open>
  \<^verbatim>\<open>band_names = [f"A{i:02d}" for i in range(64)]\<close> in both scripts.
  \<open>dec_digits\<close> is the decimal representation of a non-negative integer and
  \<open>fmt_02d\<close> the format \<open>02d\<close>: zero padding on the left up to width two.
\<close>

fun dec_digits :: "nat \<Rightarrow> pystr" where
  "dec_digits n = (if n < 10 then [48 + n] else dec_digits (n div 10) @ [48 + n mod 10])"

declare dec_digits.simps [simp del]

definition fmt_02d :: "nat \<Rightarrow> pystr" where
  "fmt_02d n = (let ds = dec_digits n in replicate (2 - length ds) 48 @ ds)"

definition band_names :: "pystr list" where
  "band_names = map (\<lambda>i. 65 # fmt_02d i) [0..<64]"

section \<open>Features, records and errors\<close>

text \<open>
  A feature of the backend's answer is read at \<open>f["properties"]\<close>, a dictionary
  from band name to value, and at \<open>f["geometry"]["coordinates"]\<close>, a list that is
  indexed at 0 and 1. Values are only carried, never computed on.
\<close>

record feature =
  coordinates :: "real list"
  properties :: "pystr \<rightharpoonup> real"

text \<open>The dictionary appended to \<open>records\<close>; \<open>None\<close> in the embedding is Python's \<open>None\<close>.\<close>

record sample_record =
  lon :: real
  lat :: real
  caption :: pystr
  alphaearth :: "real option list"
  thumb_m :: int
  sample_scale :: int

text \<open>
  The exceptions of the scripts' calls, all of them subclasses of \<open>Exception\<close>:
  what Earth Engine raises, the two that indexing and unpacking raise, and what
  \<open>requests.get\<close> and \<open>PILImage.open\<close> raise.
\<close>

datatype error = EEException | IndexError | ValueError | RequestException | OSError

text \<open>The sidebar parameters the handlers read.\<close>

record params =
  THUMB_METERS :: int
  SAMPLE_SCALE :: int
  THUMB_PIXELS :: int

text \<open>
  The body of the loop \<open>for f in feats\<close>: the dictionary display evaluates
  \<open>vals\<close> first (\<open>dict.get\<close> gives \<open>None\<close> for a missing key), then
  \<open>coordinates[0]\<close> and \<open>coordinates[1]\<close>, which raise \<open>IndexError\<close> on a
  list that is too short.
\<close>

definition make_record :: "pystr \<Rightarrow> params \<Rightarrow> feature \<Rightarrow> error + sample_record" where
  "make_record cap P f =
     (let vals = map (properties f) band_names in
      case coordinates f of
        [] \<Rightarrow> Inl IndexError
      | [x] \<Rightarrow> Inl IndexError
      | x # y # _ \<Rightarrow>
          Inr \<lparr>lon = x, lat = y, caption = py_strip cap, alphaearth = vals,
               thumb_m = THUMB_METERS P, sample_scale = SAMPLE_SCALE P\<rparr>)"

text \<open>
  The loop itself: \<open>records.append\<close> for each feature in order. An exception
  leaves the records appended so far in the list and ends the loop.
\<close>

fun append_records ::
  "pystr \<Rightarrow> params \<Rightarrow> feature list \<Rightarrow> sample_record list \<Rightarrow> sample_record list \<times> error option"
where
  "append_records cap P [] recs = (recs, None)"
| "append_records cap P (f # fs) recs =
     (case make_record cap P f of
        Inl e \<Rightarrow> (recs, Some e)
      | Inr r \<Rightarrow> append_records cap P fs (recs @ [r]))"

section \<open>The remote backend and the environment\<close>

text \<open>
  Earth Engine objects are expressions evaluated by the server only at \<open>getInfo\<close>:
  \<open>ee.Geometry.Point([lon, lat])\<close>, the geometry of the first of
  \<open>randomPoints(roi, 1, seed)\<close>, and \<open>pt.buffer(THUMB_METERS).bounds()\<close>.
\<close>

datatype geometry = Point real real | RandomPoint nat | BufferBounds geometry int

datatype image = Image "nat list"

record response =
  status_code :: int
  body :: "nat list"

text \<open>
  What the scripts cannot decide themselves: the random generator and the answers of
  the remote services. A call either raises or returns; calls made in a retry loop
  are indexed by the iteration, since a service may answer differently each time.
  \<^item> \<open>randint i\<close>: \<open>random.randint(0, 999999)\<close> of iteration \<open>i\<close>;
  \<^item> \<open>coordinates_info i pt\<close>: \<open>pt.coordinates().getInfo()\<close>;
  \<^item> \<open>b4_info i square\<close>: the mean of band B4 over \<open>square\<close>, \<open>None\<close> without coverage;
  \<^item> \<open>sample_info square scale numPixels\<close>:
    \<open>alpha_img.sample(...).getInfo()["features"]\<close>;
  \<^item> \<open>thumb_url i square pixels\<close>: \<open>s2_rgb.getThumbURL(...)\<close>;
  \<^item> \<open>requests_get i url timeout\<close>: \<open>requests.get(url, timeout=timeout)\<close>;
  \<^item> \<open>image_open bytes\<close>: \<open>PILImage.open(BytesIO(bytes))\<close>.
\<close>

record env =
  randint :: "nat \<Rightarrow> nat"
  coordinates_info :: "nat \<Rightarrow> geometry \<Rightarrow> error + real list"
  b4_info :: "nat \<Rightarrow> geometry \<Rightarrow> error + real option"
  sample_info :: "geometry option \<Rightarrow> int \<Rightarrow> nat option \<Rightarrow> error + feature list"
  thumb_url :: "nat \<Rightarrow> geometry option \<Rightarrow> int \<Rightarrow> error + pystr"
  requests_get :: "nat \<Rightarrow> pystr \<Rightarrow> nat \<Rightarrow> error + response"
  image_open :: "nat list \<Rightarrow> error + image"

text \<open>What a run does that can be observed from outside, in order.\<close>

datatype event =
    Draw nat
  | ThumbAttempt nat
  | Sleep real
  | SampleCall
  | WriteJson
  | WriteParquet
  | SavedMsg nat pystr
  | ImageFetchedMsg
  | WarnNoCaption
  | WarnNoImage
  | ErrorNoImagery

text \<open>How a piece of the script ends: it falls through, stops, reruns or raises.\<close>

datatype ctl = Continue | Stop | Rerun | Raised error

section \<open>The two files and the state of a run\<close>

datatype json_content = Absent | Corrupt | Content "sample_record list"

datatype cell = CFloat real | CStr pystr | CInt int | CList "real option list"

type_synonym row = "(pystr \<times> cell) list"

type_synonym sampled = "geometry option \<times> real option \<times> real option \<times> geometry option"

record world =
  records :: "sample_record list"
  json_file :: json_content
  parquet_file :: "row list option"
  current :: sampled
  trace :: "event list"

text \<open>
  Both scripts start with \<open>records = []\<close> and replace it by the content of the
  JSON file when the file exists and loads; a failing load is passed over.
\<close>

definition load_records :: "json_content \<Rightarrow> sample_record list" where
  "load_records j = (case j of Absent \<Rightarrow> [] | Corrupt \<Rightarrow> [] | Content rs \<Rightarrow> rs)"

definition script_start :: "world \<Rightarrow> world" where
  "script_start w = w\<lparr>records := load_records (json_file w), trace := []\<rparr>"

text \<open>
  The click picker writes \<open>pd.DataFrame(records)\<close>: the columns are the keys of
  the dictionaries in their order.
\<close>

definition picker_row :: "sample_record \<Rightarrow> row" where
  "picker_row r =
     [(str ''lon'', CFloat (lon r)), (str ''lat'', CFloat (lat r)),
      (str ''caption'', CStr (caption r)), (str ''alphaearth'', CList (alphaearth r)),
      (str ''thumb_m'', CInt (thumb_m r)), (str ''sample_scale'', CInt (sample_scale r))]"

text \<open>\<open>save_parquet\<close> of the Sentinel sampler builds its rows with its own column order.\<close>

definition save_parquet :: "sample_record list \<Rightarrow> row list" where
  "save_parquet recs =
     map (\<lambda>r. [(str ''lon'', CFloat (lon r)), (str ''lat'', CFloat (lat r)),
                (str ''caption'', CStr (caption r)),
                (str ''thumb_m'', CInt (thumb_m r)), (str ''sample_scale'', CInt (sample_scale r)),
                (str ''alphaearth'', CList (alphaearth r))]) recs"

text \<open>
  Reading a row of the columnar file back as a record, by column name; \<open>None\<close>
  when a column is missing or holds a cell of another kind.
\<close>

fun float_cell :: "cell \<Rightarrow> real option" where
  "float_cell (CFloat x) = Some x"
| "float_cell _ = None"

fun str_cell :: "cell \<Rightarrow> pystr option" where
  "str_cell (CStr s) = Some s"
| "str_cell _ = None"

fun int_cell :: "cell \<Rightarrow> int option" where
  "int_cell (CInt n) = Some n"
| "int_cell _ = None"

fun list_cell :: "cell \<Rightarrow> real option list option" where
  "list_cell (CList v) = Some v"
| "list_cell _ = None"

definition column :: "row \<Rightarrow> string \<Rightarrow> (cell \<Rightarrow> 'a option) \<Rightarrow> 'a option" where
  "column rw name rd = Option.bind (map_of rw (str name)) rd"

definition record_of_row :: "row \<Rightarrow> sample_record option" where
  "record_of_row rw =
     Option.bind (column rw ''lon'' float_cell) (\<lambda>x.
     Option.bind (column rw ''lat'' float_cell) (\<lambda>y.
     Option.bind (column rw ''caption'' str_cell) (\<lambda>c.
     Option.bind (column rw ''alphaearth'' list_cell) (\<lambda>v.
     Option.bind (column rw ''thumb_m'' int_cell) (\<lambda>t.
     Option.bind (column rw ''sample_scale'' int_cell) (\<lambda>s.
       Some \<lparr>lon = x, lat = y, caption = c, alphaearth = v, thumb_m = t, sample_scale = s\<rparr>))))))"

section \<open>The retry loops of the Sentinel sampler\<close>

text \<open>
  One iteration of the loop in \<open>get_random_valid_point\<close>: \<open>Inl\<close> when a call
  raises (no call in it is guarded by \<open>try\<close>, and unpacking \<open>lon, lat = ...\<close>
  raises \<open>ValueError\<close> unless the list has two elements), \<open>Inr None\<close> when
  \<open>val is None\<close>, and the tuple that is returned otherwise.
\<close>

definition random_draw :: "env \<Rightarrow> params \<Rightarrow> nat \<Rightarrow> error + sampled option" where
  "random_draw E P i =
     (let seed = randint E i; pt = RandomPoint seed in
      case coordinates_info E i pt of
        Inl e \<Rightarrow> Inl e
      | Inr cs \<Rightarrow>
          (case cs of
             [lon0, lat0] \<Rightarrow>
               (let square = BufferBounds pt (THUMB_METERS P) in
                case b4_info E i square of
                  Inl e \<Rightarrow> Inl e
                | Inr None \<Rightarrow> Inr None
                | Inr (Some v) \<Rightarrow> Inr (Some (Some pt, Some lon0, Some lat0, Some square)))
           | _ \<Rightarrow> Inl ValueError))"

text \<open>
  \<open>get_random_valid_point(max_tries=6)\<close>: the loop over \<open>range(max_tries)\<close>, with
  the iterations left and the index of the iteration.
\<close>

fun random_point_loop :: "env \<Rightarrow> params \<Rightarrow> nat \<Rightarrow> nat \<Rightarrow> (error + sampled) \<times> event list" where
  "random_point_loop E P 0 i = (Inr (None, None, None, None), [])"
| "random_point_loop E P (Suc k) i =
     (case random_draw E P i of
        Inl e \<Rightarrow> (Inl e, [Draw (randint E i)])
      | Inr (Some t) \<Rightarrow> (Inr t, [Draw (randint E i)])
      | Inr None \<Rightarrow> apsnd ((#) (Draw (randint E i))) (random_point_loop E P k (Suc i)))"

definition get_random_valid_point :: "env \<Rightarrow> params \<Rightarrow> nat \<Rightarrow> (error + sampled) \<times> event list" where
  "get_random_valid_point E P max_tries = random_point_loop E P max_tries 0"

text \<open>
  The body of the \<open>try\<close> in \<open>fetch_valid_thumbnail\<close>: \<open>Inr None\<close> when it
  falls through the \<open>if\<close>, \<open>Inl\<close> when one of its three calls raises.
\<close>

definition thumbnail_try ::
  "env \<Rightarrow> params \<Rightarrow> geometry option \<Rightarrow> nat \<Rightarrow> nat \<Rightarrow> error + (pystr \<times> image) option"
where
  "thumbnail_try E P square timeout i =
     (case thumb_url E i square (THUMB_PIXELS P) of
        Inl e \<Rightarrow> Inl e
      | Inr url \<Rightarrow>
          (case requests_get E i url timeout of
             Inl e \<Rightarrow> Inl e
           | Inr r \<Rightarrow>
               if status_code r = 200 \<and> length (body r) > 10000
               then (case image_open E (body r) of
                       Inl e \<Rightarrow> Inl e
                     | Inr img \<Rightarrow> Inr (Some (url, img)))
               else Inr None))"

text \<open>
  \<open>fetch_valid_thumbnail(square, tries=4, timeout=8)\<close>: \<open>except Exception\<close>
  catches whatever the body raises and sleeps half a second; an answer that fails
  the \<open>if\<close> goes to the next iteration at once.
\<close>

fun fetch_loop ::
  "env \<Rightarrow> params \<Rightarrow> geometry option \<Rightarrow> nat \<Rightarrow> nat \<Rightarrow> nat \<Rightarrow>
   (pystr option \<times> image option) \<times> event list"
where
  "fetch_loop E P square timeout 0 i = ((None, None), [])"
| "fetch_loop E P square timeout (Suc k) i =
     (case thumbnail_try E P square timeout i of
        Inr (Some (url, img)) \<Rightarrow> ((Some url, Some img), [ThumbAttempt i])
      | Inr None \<Rightarrow> apsnd ((#) (ThumbAttempt i)) (fetch_loop E P square timeout k (Suc i))
      | Inl e \<Rightarrow>
          apsnd ((@) [ThumbAttempt i, Sleep (1 / 2)]) (fetch_loop E P square timeout k (Suc i)))"

definition fetch_valid_thumbnail ::
  "env \<Rightarrow> params \<Rightarrow> geometry option \<Rightarrow> nat \<Rightarrow> nat \<Rightarrow>
   (pystr option \<times> image option) \<times> event list"
where
  "fetch_valid_thumbnail E P square tries timeout = fetch_loop E P square timeout tries 0"

section \<open>The handlers\<close>

text \<open>
  The click picker, under \<open>if st.button("Save Sample")\<close>, for a click at
  \<open>(lon0, lat0)\<close> and the text of the caption field. There is no condition on the
  caption. The message shows \<open>len(feats)\<close> and the caption as typed.
\<close>

definition picker_save :: "env \<Rightarrow> params \<Rightarrow> real \<Rightarrow> real \<Rightarrow> pystr \<Rightarrow> world \<Rightarrow> world \<times> ctl" where
  "picker_save E P lon0 lat0 cap w =
     (let pt = Point lon0 lat0;
          square = BufferBounds pt (THUMB_METERS P);
          w1 = w\<lparr>trace := trace w @ [SampleCall]\<rparr>
      in case sample_info E (Some square) (SAMPLE_SCALE P) None of
           Inl e \<Rightarrow> (w1, Raised e)
         | Inr feats \<Rightarrow>
             (case append_records cap P feats (records w1) of
                (recs, Some e) \<Rightarrow> (w1\<lparr>records := recs\<rparr>, Raised e)
              | (recs, None) \<Rightarrow>
                  (w1\<lparr>records := recs,
                      json_file := Content recs,
                      parquet_file := Some (map picker_row recs),
                      trace := trace w1 @ [WriteJson, WriteParquet, SavedMsg (length feats) cap]\<rparr>,
                   Continue)))"

text \<open>
  The Sentinel sampler, under \<open>if save_btn\<close>: the save runs only when the stripped
  caption is not empty, samples the square of the current point with
  \<open>numPixels=100\<close>, and is followed by a new random point and a rerun.
\<close>

definition sentinel_submit :: "env \<Rightarrow> params \<Rightarrow> pystr \<Rightarrow> world \<Rightarrow> world \<times> ctl" where
  "sentinel_submit E P cap w =
     (case current w of (pt, lon0, lat0, square) \<Rightarrow>
        if py_strip cap \<noteq> [] then
          (let w1 = w\<lparr>trace := trace w @ [SampleCall]\<rparr>
           in case sample_info E square (SAMPLE_SCALE P) (Some 100) of
                Inl e \<Rightarrow> (w1, Raised e)
              | Inr feats \<Rightarrow>
                  (case append_records cap P feats (records w1) of
                     (recs, Some e) \<Rightarrow> (w1\<lparr>records := recs\<rparr>, Raised e)
                   | (recs, None) \<Rightarrow>
                       (let w2 = w1\<lparr>records := recs,
                                     json_file := Content recs,
                                     parquet_file := Some (save_parquet recs),
                                     trace := trace w1 @
                                       [WriteJson, WriteParquet, SavedMsg (length feats) cap]\<rparr>
                        in case get_random_valid_point E P 6 of
                             (Inl e, evs) \<Rightarrow> (w2\<lparr>trace := trace w2 @ evs\<rparr>, Raised e)
                           | (Inr c, evs) \<Rightarrow>
                               (w2\<lparr>current := c, trace := trace w2 @ evs\<rparr>, Rerun))))
        else (w\<lparr>trace := trace w @ [WarnNoCaption]\<rparr>, Continue))"

text \<open>Under \<open>if skip_btn\<close>: a new random point and a rerun.\<close>

definition skip_handler :: "env \<Rightarrow> params \<Rightarrow> world \<Rightarrow> world \<times> ctl" where
  "skip_handler E P w =
     (case get_random_valid_point E P 6 of
        (Inl e, evs) \<Rightarrow> (w\<lparr>trace := trace w @ evs\<rparr>, Raised e)
      | (Inr c, evs) \<Rightarrow> (w\<lparr>current := c, trace := trace w @ evs\<rparr>, Rerun))"

text \<open>
  From unpacking \<open>st.session_state.current\<close> to the image: the script stops without
  a point, fetches the thumbnail, sleeps 0.3 s, and on \<open>img is None\<close> warns, draws
  a new random point and reruns.
\<close>

definition thumbnail_stage :: "env \<Rightarrow> params \<Rightarrow> world \<Rightarrow> world \<times> ctl" where
  "thumbnail_stage E P w =
     (case current w of (pt, lon0, lat0, square) \<Rightarrow>
        if pt = None then (w\<lparr>trace := trace w @ [ErrorNoImagery]\<rparr>, Stop)
        else
          (case fetch_valid_thumbnail E P square 4 8 of
             ((url, img), evs) \<Rightarrow>
               (let w1 = w\<lparr>trace := trace w @ evs @ [Sleep (3 / 10)]\<rparr>
                in if img = None then
                     (let w2 = w1\<lparr>trace := trace w1 @ [WarnNoImage]\<rparr>
                      in case get_random_valid_point E P 6 of
                           (Inl e, evs') \<Rightarrow> (w2\<lparr>trace := trace w2 @ evs'\<rparr>, Raised e)
                         | (Inr c, evs') \<Rightarrow>
                             (w2\<lparr>current := c, trace := trace w2 @ evs'\<rparr>, Rerun))
                   else (w1\<lparr>trace := trace w1 @ [ImageFetchedMsg]\<rparr>, Continue))))"

section \<open>Reading records, traces and files\<close>

text \<open>
  The record that the loop body builds from a feature whose coordinate list has at
  least two elements (see \<open>make_record_wf\<close> below).
\<close>

definition built :: "pystr \<Rightarrow> params \<Rightarrow> feature \<Rightarrow> sample_record" where
  "built cap P f =
     \<lparr>lon = coordinates f ! 0, lat = coordinates f ! 1, caption = py_strip cap,
      alphaearth = map (properties f) band_names,
      thumb_m = THUMB_METERS P, sample_scale = SAMPLE_SCALE P\<rparr>"

text \<open>Projections of a trace: the seeds drawn, the thumbnail attempts, the sleeps, the save messages.\<close>

fun draw_seeds :: "event list \<Rightarrow> nat list" where
  "draw_seeds [] = []"
| "draw_seeds (Draw s # es) = s # draw_seeds es"
| "draw_seeds (_ # es) = draw_seeds es"

fun thumb_attempts :: "event list \<Rightarrow> nat list" where
  "thumb_attempts [] = []"
| "thumb_attempts (ThumbAttempt i # es) = i # thumb_attempts es"
| "thumb_attempts (_ # es) = thumb_attempts es"

fun sleep_durations :: "event list \<Rightarrow> real list" where
  "sleep_durations [] = []"
| "sleep_durations (Sleep d # es) = d # sleep_durations es"
| "sleep_durations (_ # es) = sleep_durations es"

fun saved_msgs :: "event list \<Rightarrow> (nat \<times> pystr) list" where
  "saved_msgs [] = []"
| "saved_msgs (SavedMsg n c # es) = (n, c) # saved_msgs es"
| "saved_msgs (_ # es) = saved_msgs es"

text \<open>
  The number of rows on disk: what the next run would load from the JSON file, and the
  rows of the columnar file.
\<close>

definition json_rows :: "world \<Rightarrow> nat" where
  "json_rows w = length (load_records (json_file w))"

definition parquet_rows :: "world \<Rightarrow> nat" where
  "parquet_rows w = (case parquet_file w of None \<Rightarrow> 0 | Some rows \<Rightarrow> length rows)"

text \<open>
  The rows of the columnar file, and the files of a tool being in step: both absent,
  or the columnar file holding the rows written from the records of the JSON file.
\<close>

definition parquet_content :: "world \<Rightarrow> row list" where
  "parquet_content w = (case parquet_file w of None \<Rightarrow> [] | Some rows \<Rightarrow> rows)"

definition picker_in_sync :: "world \<Rightarrow> bool" where
  "picker_in_sync w =
     (case json_file w of
        Absent \<Rightarrow> parquet_file w = None
      | Corrupt \<Rightarrow> False
      | Content rs \<Rightarrow> parquet_file w = Some (map picker_row rs))"

definition sentinel_in_sync :: "world \<Rightarrow> bool" where
  "sentinel_in_sync w =
     (case json_file w of
        Absent \<Rightarrow> parquet_file w = None
      | Corrupt \<Rightarrow> False
      | Content rs \<Rightarrow> parquet_file w = Some (save_parquet rs))"

text \<open>A string without whitespace at either end.\<close>

definition unpadded :: "pystr \<Rightarrow> bool" where
  "unpadded s \<longleftrightarrow> s = [] \<or> (\<not> py_isspace (hd s) \<and> \<not> py_isspace (last s))"

section \<open>Example inputs\<close>

text \<open>
  Sidebar defaults, two features (one with two of the 64 bands, one with none), a
  backend that answers, one that raises on every Earth Engine call, one without
  coverage and with rate-limited thumbnails, an empty dataset and two captions.
\<close>

definition example_params :: params where
  "example_params = \<lparr>THUMB_METERS = 1000, SAMPLE_SCALE = 100, THUMB_PIXELS = 512\<rparr>"

definition feature_two_bands :: feature where
  "feature_two_bands =
     \<lparr>coordinates = [- 98, 39], properties = [str ''A00'' \<mapsto> 1 / 4, str ''A63'' \<mapsto> - 1 / 8]\<rparr>"

definition feature_no_bands :: feature where
  "feature_no_bands = \<lparr>coordinates = [- 97, 38], properties = Map.empty\<rparr>"

definition env_up :: env where
  "env_up =
     \<lparr>randint = (\<lambda>i. 4242 + i),
      coordinates_info = (\<lambda>i g. Inr [- 105, 40]),
      b4_info = (\<lambda>i g. Inr (Some 812)),
      sample_info = (\<lambda>sq sc np. Inr [feature_two_bands, feature_no_bands]),
      thumb_url = (\<lambda>i sq px. Inr (str ''https://earthengine.example/thumb'')),
      requests_get = (\<lambda>i u t. Inr \<lparr>status_code = 200, body = replicate 10001 0\<rparr>),
      image_open = (\<lambda>b. Inr (Image b))\<rparr>"

definition env_down :: env where
  "env_down =
     env_up\<lparr>coordinates_info := (\<lambda>i g. Inl EEException),
            sample_info := (\<lambda>sq sc np. Inl EEException),
            thumb_url := (\<lambda>i sq px. Inl EEException)\<rparr>"

definition env_no_coverage :: env where
  "env_no_coverage =
     env_up\<lparr>b4_info := (\<lambda>i g. Inr None),
            requests_get := (\<lambda>i u t. Inr \<lparr>status_code = 429, body = []\<rparr>)\<rparr>"

definition fresh_world :: world where
  "fresh_world =
     \<lparr>records = [], json_file = Absent, parquet_file = None,
      current = (Some (RandomPoint 7), Some (- 105), Some 40,
                 Some (BufferBounds (RandomPoint 7) 1000)),
      trace = []\<rparr>"

definition padded_caption :: pystr where
  "padded_caption = str ''  dry lake ''"

definition blank_caption :: pystr where
  "blank_caption = str ''   ''"

section \<open>Building records\<close>

lemma length_band_names: "length band_names = 64"
  by (simp add: band_names_def)

lemma make_record_wf: "2 \<le> length (coordinates f) \<Longrightarrow> make_record cap P f = Inr (built cap P f)"
  by (cases "coordinates f"; cases "tl (coordinates f)") (auto simp: make_record_def built_def)

lemma make_record_short: "length (coordinates f) < 2 \<Longrightarrow> make_record cap P f = Inl IndexError"
  by (cases "coordinates f"; cases "tl (coordinates f)") (auto simp: make_record_def)

lemma make_record_Inr: "make_record cap P f = Inr r \<Longrightarrow> r = built cap P f \<and> 2 \<le> length (coordinates f)"
  by (cases "coordinates f"; cases "tl (coordinates f)") (auto simp: make_record_def built_def)

lemma append_records_wf:
  "\<forall>f\<in>set fs. 2 \<le> length (coordinates f) \<Longrightarrow>
   append_records cap P fs recs = (recs @ map (built cap P) fs, None)"
  by (induction fs arbitrary: recs) (simp_all add: make_record_wf)

lemma append_records_take:
  "\<exists>k\<le>length fs. fst (append_records cap P fs recs) = recs @ map (built cap P) (take k fs)"
proof (induction fs arbitrary: recs)
  case Nil
  then show ?case by simp
next
  case (Cons f fs)
  show ?case
  proof (cases "make_record cap P f")
    case (Inl e)
    then have "fst (append_records cap P (f # fs) recs) = recs @ map (built cap P) (take 0 (f # fs))"
      by simp
    then show ?thesis by blast
  next
    case (Inr r)
    then have r: "r = built cap P f" by (simp add: make_record_Inr)
    from Cons.IH [of "recs @ [r]"] obtain k where
      k: "k \<le> length fs" "fst (append_records cap P fs (recs @ [r])) = (recs @ [r]) @ map (built cap P) (take k fs)"
      by blast
    have "fst (append_records cap P (f # fs) recs) = recs @ map (built cap P) (take (Suc k) (f # fs))"
      using Inr k r by simp
    moreover have "Suc k \<le> length (f # fs)" using k by simp
    ultimately show ?thesis by blast
  qed
qed

lemma append_records_cases:
  obtains k where "k \<le> length fs"
    "append_records cap P fs recs = (recs @ map (built cap P) (take k fs), None) \<or>
     (\<exists>e. append_records cap P fs recs = (recs @ map (built cap P) (take k fs), Some e))"
proof -
  obtain k where k: "k \<le> length fs"
    "fst (append_records cap P fs recs) = recs @ map (built cap P) (take k fs)"
    using append_records_take by blast
  show ?thesis
  proof (cases "snd (append_records cap P fs recs)")
    case None
    with k(2) have "append_records cap P fs recs = (recs @ map (built cap P) (take k fs), None)"
      by (metis prod.collapse)
    with k(1) that show ?thesis by blast
  next
    case (Some e)
    with k(2) have "append_records cap P fs recs = (recs @ map (built cap P) (take k fs), Some e)"
      by (metis prod.collapse)
    with k(1) that show ?thesis by blast
  qed
qed

lemma alphaearth_built: "alphaearth (built cap P f) = map (properties f) band_names"
  by (simp add: built_def)

lemma caption_built: "caption (built cap P f) = py_strip cap"
  by (simp add: built_def)

lemma band_names_nth: "i < 64 \<Longrightarrow> band_names ! i = 65 # fmt_02d i"
  by (simp add: band_names_def)

lemma band_name_first: "band_names ! 0 = str ''A00''"
  by (simp add: band_names_nth fmt_02d_def dec_digits.simps str_def)

lemma band_name_last: "band_names ! 63 = str ''A63''"
  by (simp add: band_names_nth fmt_02d_def dec_digits.simps str_def)

section \<open>Stripping\<close>

lemma py_strip_split:
  "\<exists>a b. s = a @ py_strip s @ b \<and> (\<forall>c\<in>set a. py_isspace c) \<and> (\<forall>c\<in>set b. py_isspace c)"
proof -
  define t where "t = dropWhile py_isspace s"
  define a where "a = takeWhile py_isspace s"
  define b where "b = rev (takeWhile py_isspace (rev t))"
  have "t = rev (rev t)" by simp
  also have "\<dots> = rev (takeWhile py_isspace (rev t) @ dropWhile py_isspace (rev t))"
    by (simp only: takeWhile_dropWhile_id)
  also have "\<dots> = rev (dropWhile py_isspace (rev t)) @ rev (takeWhile py_isspace (rev t))"
    by (simp only: rev_append)
  finally have "t = py_strip s @ b" by (simp only: py_strip_def t_def b_def)
  moreover have "s = a @ t" by (simp add: a_def t_def)
  moreover have "\<forall>c\<in>set a. py_isspace c" unfolding a_def by (auto dest: set_takeWhileD)
  moreover have "\<forall>c\<in>set b. py_isspace c" unfolding b_def by (auto dest: set_takeWhileD)
  ultimately show ?thesis by blast
qed

lemma py_strip_ends:
  "py_strip s \<noteq> [] \<Longrightarrow> \<not> py_isspace (hd (py_strip s)) \<and> \<not> py_isspace (last (py_strip s))"
proof -
  assume ne: "py_strip s \<noteq> []"
  define t where "t = dropWhile py_isspace s"
  define u where "u = dropWhile py_isspace (rev t)"
  have ps: "py_strip s = rev u" by (simp add: py_strip_def t_def u_def)
  with ne have une: "u \<noteq> []" by simp
  then have "\<not> py_isspace (hd u)" unfolding u_def by (rule hd_dropWhile)
  then have l: "\<not> py_isspace (last (py_strip s))" using une by (simp add: ps last_rev)
  have tne: "t \<noteq> []" using une by (auto simp: u_def)
  then have ht: "\<not> py_isspace (hd t)" unfolding t_def by (rule hd_dropWhile)
  have "rev t = takeWhile py_isspace (rev t) @ u" by (simp add: u_def)
  then have "last (rev t) = last u" using une by (metis last_appendR)
  then have "hd t = last u" using tne by (simp add: last_rev)
  then have "\<not> py_isspace (hd (py_strip s))" using ht une by (simp add: ps hd_rev)
  with l show ?thesis by simp
qed

section \<open>The retry loops\<close>

lemma all_less_shift:
  assumes "\<forall>j<Suc k. Q (i + j)"
  shows "\<forall>j<k. Q (Suc i + j)"
proof (intro allI impI)
  fix j assume "j < k"
  then have "Suc j < Suc k" by simp
  with assms have "Q (i + Suc j)" by blast
  then show "Q (Suc i + j)" by simp
qed

lemma random_point_loop_draws:
  "length (draw_seeds (snd (random_point_loop E P k i))) \<le> k"
  by (induction k arbitrary: i) (auto split: sum.splits option.splits intro: le_SucI)

lemma random_point_loop_only_draws:
  "length (snd (random_point_loop E P k i)) \<le> k"
  by (induction k arbitrary: i) (auto split: sum.splits option.splits intro: le_SucI)

lemma random_point_loop_none:
  "(\<forall>j<k. random_draw E P (i + j) = Inr None) \<Longrightarrow>
   random_point_loop E P k i = (Inr (None, None, None, None), map (\<lambda>j. Draw (randint E j)) [i..<i + k])"
proof (induction k arbitrary: i)
  case 0
  then show ?case by simp
next
  case (Suc k)
  have d: "random_draw E P i = Inr None" using Suc.prems [rule_format, of 0] by simp
  have "\<forall>j<k. random_draw E P (Suc i + j) = Inr None"
    using Suc.prems by (rule all_less_shift)
  from Suc.IH [OF this] have ih:
    "random_point_loop E P k (Suc i) =
     (Inr (None, None, None, None), map (\<lambda>j. Draw (randint E j)) [Suc i..<Suc i + k])" .
  have u: "[i..<i + Suc k] = i # [Suc i..<Suc i + k]"
    by (simp add: upt_conv_Cons del: upt_Suc)
  show ?case unfolding u using d ih by (simp del: upt_Suc)
qed

lemma random_point_loop_Inl:
  "fst (random_point_loop E P k i) = Inl e \<longleftrightarrow>
   (\<exists>j<k. random_draw E P (i + j) = Inl e \<and> (\<forall>m<j. random_draw E P (i + m) = Inr None))"
proof (induction k arbitrary: i)
  case 0
  then show ?case by simp
next
  case (Suc k)
  show ?case
  proof (cases "random_draw E P i")
    case (Inl e')
    show ?thesis
    proof
      assume "fst (random_point_loop E P (Suc k) i) = Inl e"
      with Inl have "random_draw E P (i + 0) = Inl e" by simp
      then show "\<exists>j<Suc k. random_draw E P (i + j) = Inl e \<and> (\<forall>m<j. random_draw E P (i + m) = Inr None)"
        by blast
    next
      assume "\<exists>j<Suc k. random_draw E P (i + j) = Inl e \<and> (\<forall>m<j. random_draw E P (i + m) = Inr None)"
      then obtain j where j: "random_draw E P (i + j) = Inl e" "\<forall>m<j. random_draw E P (i + m) = Inr None"
        by blast
      have "j = 0"
      proof (rule ccontr)
        assume "j \<noteq> 0"
        then have "random_draw E P (i + 0) = Inr None" using j(2) by blast
        with Inl show False by simp
      qed
      with j Inl show "fst (random_point_loop E P (Suc k) i) = Inl e" by simp
    qed
  next
    case (Inr r)
    show ?thesis
    proof (cases r)
      case None
      have step: "fst (random_point_loop E P (Suc k) i) = fst (random_point_loop E P k (Suc i))"
        using Inr None by simp
      show ?thesis
      proof
        assume "fst (random_point_loop E P (Suc k) i) = Inl e"
        with step Suc.IH [of "Suc i"] obtain j where
          j: "j < k" "random_draw E P (Suc i + j) = Inl e" "\<forall>m<j. random_draw E P (Suc i + m) = Inr None"
          by auto
        have "\<forall>m<Suc j. random_draw E P (i + m) = Inr None"
        proof (intro allI impI)
          fix m assume "m < Suc j"
          show "random_draw E P (i + m) = Inr None"
          proof (cases m)
            case 0
            then show ?thesis using Inr None by simp
          next
            case (Suc m')
            then show ?thesis using j(3) \<open>m < Suc j\<close> by simp
          qed
        qed
        moreover have "random_draw E P (i + Suc j) = Inl e" using j(2) by simp
        moreover have "Suc j < Suc k" using j(1) by simp
        ultimately show "\<exists>j<Suc k. random_draw E P (i + j) = Inl e \<and> (\<forall>m<j. random_draw E P (i + m) = Inr None)"
          by blast
      next
        assume "\<exists>j<Suc k. random_draw E P (i + j) = Inl e \<and> (\<forall>m<j. random_draw E P (i + m) = Inr None)"
        then obtain j where
          j: "j < Suc k" "random_draw E P (i + j) = Inl e" "\<forall>m<j. random_draw E P (i + m) = Inr None"
          by blast
        have "j \<noteq> 0"
        proof
          assume "j = 0"
          with j(2) Inr show False by simp
        qed
        then obtain j' where j': "j = Suc j'" by (cases j) auto
        have "j' < k" using j(1) j' by simp
        moreover have "random_draw E P (Suc i + j') = Inl e" using j(2) j' by simp
        moreover have "\<forall>m<j'. random_draw E P (Suc i + m) = Inr None"
          using j(3) unfolding j' by (rule all_less_shift)
        ultimately have "fst (random_point_loop E P k (Suc i)) = Inl e"
          using Suc.IH [of "Suc i"] by blast
        with step show "fst (random_point_loop E P (Suc k) i) = Inl e" by simp
      qed
    next
      case (Some t)
      have "fst (random_point_loop E P (Suc k) i) \<noteq> Inl e" using Inr Some by simp
      moreover have "\<not> (\<exists>j<Suc k. random_draw E P (i + j) = Inl e \<and> (\<forall>m<j. random_draw E P (i + m) = Inr None))"
      proof
        assume "\<exists>j<Suc k. random_draw E P (i + j) = Inl e \<and> (\<forall>m<j. random_draw E P (i + m) = Inr None)"
        then obtain j where
          j: "random_draw E P (i + j) = Inl e" "\<forall>m<j. random_draw E P (i + m) = Inr None"
          by blast
        show False
        proof (cases j)
          case 0
          then show ?thesis using j(1) Inr by simp
        next
          case (Suc j')
          then have "random_draw E P (i + 0) = Inr None" using j(2) by blast
          then show ?thesis using Inr Some by simp
        qed
      qed
      ultimately show ?thesis by blast
    qed
  qed
qed

lemma fetch_loop_attempts:
  "length (thumb_attempts (snd (fetch_loop E P sq t k i))) \<le> k"
  by (induction k arbitrary: i) (auto split: sum.splits option.splits intro: le_SucI)

lemma fetch_loop_sleeps:
  "set (sleep_durations (snd (fetch_loop E P sq t k i))) \<subseteq> {1 / 2} \<and>
   length (sleep_durations (snd (fetch_loop E P sq t k i))) \<le> k"
  by (induction k arbitrary: i) (auto split: sum.splits option.splits intro: le_SucI)

lemma fetch_loop_result:
  "fst (fetch_loop E P sq t k i) = (None, None) \<or>
   (\<exists>url img. fst (fetch_loop E P sq t k i) = (Some url, Some img))"
  by (induction k arbitrary: i) (auto split: sum.splits option.splits)

lemma fetch_loop_fail:
  "(\<forall>j<k. \<forall>r. thumbnail_try E P sq t (i + j) \<noteq> Inr (Some r)) \<Longrightarrow>
   fst (fetch_loop E P sq t k i) = (None, None) \<and>
   thumb_attempts (snd (fetch_loop E P sq t k i)) = [i..<i + k]"
proof (induction k arbitrary: i)
  case 0
  then show ?case by simp
next
  case (Suc k)
  have d: "\<forall>r. thumbnail_try E P sq t i \<noteq> Inr (Some r)" using Suc.prems [rule_format, of 0] by simp
  have "\<forall>j<k. \<forall>r. thumbnail_try E P sq t (Suc i + j) \<noteq> Inr (Some r)"
    using Suc.prems by (rule all_less_shift)
  from Suc.IH [OF this] have ih:
    "fst (fetch_loop E P sq t k (Suc i)) = (None, None)"
    "thumb_attempts (snd (fetch_loop E P sq t k (Suc i))) = [Suc i..<Suc i + k]"
    by simp_all
  have u: "[i..<i + Suc k] = i # [Suc i..<Suc i + k]"
    by (simp add: upt_conv_Cons del: upt_Suc)
  show ?case unfolding u using d ih
    by (auto simp del: upt_Suc split: sum.splits option.splits)
qed

lemma fetch_loop_sleep_count:
  "sleep_durations (snd (fetch_loop E P sq t k i)) =
   replicate (length (filter (\<lambda>j. isl (thumbnail_try E P sq t j))
                        (thumb_attempts (snd (fetch_loop E P sq t k i))))) (1 / 2)"
  by (induction k arbitrary: i) (auto split: sum.splits option.splits)

section \<open>Traces and rows\<close>

lemma saved_msgs_append: "saved_msgs (xs @ ys) = saved_msgs xs @ saved_msgs ys"
  by (induction xs rule: saved_msgs.induct) simp_all

lemma saved_msgs_random_point_loop: "saved_msgs (snd (random_point_loop E P k i)) = []"
  by (induction k arbitrary: i) (auto split: sum.splits option.splits)

lemma record_of_picker_row: "record_of_row (picker_row r) = Some r"
  by (simp add: record_of_row_def picker_row_def column_def str_def)

lemma record_of_save_parquet: "map record_of_row (save_parquet rs) = map Some rs"
  by (simp add: record_of_row_def save_parquet_def column_def str_def)

lemma save_parquet_append: "save_parquet (xs @ ys) = save_parquet xs @ save_parquet ys"
  by (simp add: save_parquet_def)

lemma length_save_parquet: "length (save_parquet rs) = length rs"
  by (simp add: save_parquet_def)

lemma load_script_start [simp]:
  "records (script_start w) = load_records (json_file w)"
  "json_file (script_start w) = json_file w"
  "parquet_file (script_start w) = parquet_file w"
  "current (script_start w) = current w"
  "trace (script_start w) = []"
  by (simp_all add: script_start_def)

section \<open>What the handlers do\<close>

lemma picker_save_ok:
  assumes "\<forall>f\<in>set feats. 2 \<le> length (coordinates f)"
    and "sample_info E (Some (BufferBounds (Point x y) (THUMB_METERS P))) (SAMPLE_SCALE P) None = Inr feats"
  shows "picker_save E P x y cap w =
    (w\<lparr>records := records w @ map (built cap P) feats,
       json_file := Content (records w @ map (built cap P) feats),
       parquet_file := Some (map picker_row (records w @ map (built cap P) feats)),
       trace := trace w @ [SampleCall, WriteJson, WriteParquet, SavedMsg (length feats) cap]\<rparr>,
     Continue)"
  using assms by (simp add: picker_save_def Let_def append_records_wf)

lemma picker_save_effect:
  obtains fs where
    "records (fst (picker_save E P x y cap w)) = records w @ map (built cap P) fs"
    "(json_file (fst (picker_save E P x y cap w)) = json_file w \<and>
      parquet_file (fst (picker_save E P x y cap w)) = parquet_file w) \<or>
     (json_file (fst (picker_save E P x y cap w)) = Content (records w @ map (built cap P) fs) \<and>
      parquet_file (fst (picker_save E P x y cap w)) =
        Some (map picker_row (records w @ map (built cap P) fs)))"
proof (cases "sample_info E (Some (BufferBounds (Point x y) (THUMB_METERS P))) (SAMPLE_SCALE P) None")
  case (Inl e)
  then have "records (fst (picker_save E P x y cap w)) = records w @ map (built cap P) []"
    "json_file (fst (picker_save E P x y cap w)) = json_file w"
    "parquet_file (fst (picker_save E P x y cap w)) = parquet_file w"
    by (simp_all add: picker_save_def Let_def)
  with that show ?thesis by blast
next
  case (Inr feats)
  obtain k where k: "append_records cap P feats (records w) = (records w @ map (built cap P) (take k feats), None) \<or>
     (\<exists>e. append_records cap P feats (records w) = (records w @ map (built cap P) (take k feats), Some e))"
    by (rule append_records_cases)
  then show ?thesis
  proof
    assume "append_records cap P feats (records w) = (records w @ map (built cap P) (take k feats), None)"
    with Inr have "records (fst (picker_save E P x y cap w)) = records w @ map (built cap P) (take k feats)"
      "json_file (fst (picker_save E P x y cap w)) = Content (records w @ map (built cap P) (take k feats))"
      "parquet_file (fst (picker_save E P x y cap w)) =
        Some (map picker_row (records w @ map (built cap P) (take k feats)))"
      by (simp_all add: picker_save_def Let_def)
    with that show ?thesis by blast
  next
    assume "\<exists>e. append_records cap P feats (records w) = (records w @ map (built cap P) (take k feats), Some e)"
    then obtain e where "append_records cap P feats (records w) = (records w @ map (built cap P) (take k feats), Some e)"
      by blast
    with Inr have "records (fst (picker_save E P x y cap w)) = records w @ map (built cap P) (take k feats)"
      "json_file (fst (picker_save E P x y cap w)) = json_file w"
      "parquet_file (fst (picker_save E P x y cap w)) = parquet_file w"
      by (simp_all add: picker_save_def Let_def)
    with that show ?thesis by blast
  qed
qed

lemma sentinel_submit_ok:
  assumes "\<forall>f\<in>set feats. 2 \<le> length (coordinates f)"
    and "sample_info E (snd (snd (snd (current w)))) (SAMPLE_SCALE P) (Some 100) = Inr feats"
    and "py_strip cap \<noteq> []"
  shows "fst (sentinel_submit E P cap w) =
    w\<lparr>records := records w @ map (built cap P) feats,
       json_file := Content (records w @ map (built cap P) feats),
       parquet_file := Some (save_parquet (records w @ map (built cap P) feats)),
       current := (case fst (get_random_valid_point E P 6) of Inl e \<Rightarrow> current w | Inr c \<Rightarrow> c),
       trace := trace w @ [SampleCall, WriteJson, WriteParquet, SavedMsg (length feats) cap] @
                snd (get_random_valid_point E P 6)\<rparr>"
  using assms
  by (cases "current w"; cases "get_random_valid_point E P 6"; cases "fst (get_random_valid_point E P 6)")
     (simp_all add: sentinel_submit_def Let_def append_records_wf)

lemma sentinel_submit_blank:
  "py_strip cap = [] \<Longrightarrow>
   sentinel_submit E P cap w = (w\<lparr>trace := trace w @ [WarnNoCaption]\<rparr>, Continue)"
  by (cases "current w") (simp add: sentinel_submit_def)

lemma sentinel_submit_effect:
  obtains fs where
    "records (fst (sentinel_submit E P cap w)) = records w @ map (built cap P) fs"
    "(json_file (fst (sentinel_submit E P cap w)) = json_file w \<and>
      parquet_file (fst (sentinel_submit E P cap w)) = parquet_file w) \<or>
     (json_file (fst (sentinel_submit E P cap w)) = Content (records w @ map (built cap P) fs) \<and>
      parquet_file (fst (sentinel_submit E P cap w)) =
        Some (save_parquet (records w @ map (built cap P) fs)))"
proof (cases "py_strip cap = []")
  case True
  then have "records (fst (sentinel_submit E P cap w)) = records w @ map (built cap P) []"
    "json_file (fst (sentinel_submit E P cap w)) = json_file w"
    "parquet_file (fst (sentinel_submit E P cap w)) = parquet_file w"
    by (simp_all add: sentinel_submit_blank)
  with that show ?thesis by blast
next
  case ne: False
  obtain pt lon0 lat0 square where cur: "current w = (pt, lon0, lat0, square)"
    by (cases "current w") auto
  show ?thesis
  proof (cases "sample_info E square (SAMPLE_SCALE P) (Some 100)")
    case (Inl e)
    with ne cur have "records (fst (sentinel_submit E P cap w)) = records w @ map (built cap P) []"
      "json_file (fst (sentinel_submit E P cap w)) = json_file w"
      "parquet_file (fst (sentinel_submit E P cap w)) = parquet_file w"
      by (simp_all add: sentinel_submit_def Let_def)
    with that show ?thesis by blast
  next
    case (Inr feats)
    obtain k where k: "append_records cap P feats (records w) = (records w @ map (built cap P) (take k feats), None) \<or>
       (\<exists>e. append_records cap P feats (records w) = (records w @ map (built cap P) (take k feats), Some e))"
      by (rule append_records_cases)
    then show ?thesis
    proof
      assume "append_records cap P feats (records w) = (records w @ map (built cap P) (take k feats), None)"
      with Inr ne cur have "records (fst (sentinel_submit E P cap w)) = records w @ map (built cap P) (take k feats)"
        "json_file (fst (sentinel_submit E P cap w)) = Content (records w @ map (built cap P) (take k feats))"
        "parquet_file (fst (sentinel_submit E P cap w)) =
          Some (save_parquet (records w @ map (built cap P) (take k feats)))"
        by (simp_all add: sentinel_submit_def Let_def split: prod.splits sum.splits)
      with that show ?thesis by blast
    next
      assume "\<exists>e. append_records cap P feats (records w) = (records w @ map (built cap P) (take k feats), Some e)"
      then obtain e where "append_records cap P feats (records w) = (records w @ map (built cap P) (take k feats), Some e)"
        by blast
      with Inr ne cur have "records (fst (sentinel_submit E P cap w)) = records w @ map (built cap P) (take k feats)"
        "json_file (fst (sentinel_submit E P cap w)) = json_file w"
        "parquet_file (fst (sentinel_submit E P cap w)) = parquet_file w"
        by (simp_all add: sentinel_submit_def Let_def)
      with that show ?thesis by blast
    qed
  qed
qed

lemma skip_handler_frame:
  "records (fst (skip_handler E P w)) = records w \<and>
   json_file (fst (skip_handler E P w)) = json_file w \<and>
   parquet_file (fst (skip_handler E P w)) = parquet_file w"
  by (simp add: skip_handler_def split: prod.splits sum.splits)

lemma thumbnail_stage_frame:
  "records (fst (thumbnail_stage E P w)) = records w \<and>
   json_file (fst (thumbnail_stage E P w)) = json_file w \<and>
   parquet_file (fst (thumbnail_stage E P w)) = parquet_file w"
  by (simp add: thumbnail_stage_def Let_def split: prod.splits sum.splits)

lemma thumbnail_stage_no_image:
  assumes "fst (current w) \<noteq> None"
    and "snd (fst (fetch_valid_thumbnail E P (snd (snd (snd (current w)))) 4 8)) = None"
  shows "trace (fst (thumbnail_stage E P w)) =
      trace w @ snd (fetch_valid_thumbnail E P (snd (snd (snd (current w)))) 4 8) @
        [Sleep (3 / 10), WarnNoImage] @ snd (get_random_valid_point E P 6)"
    and "snd (thumbnail_stage E P w) =
      (case fst (get_random_valid_point E P 6) of Inl e \<Rightarrow> Raised e | Inr c \<Rightarrow> Rerun)"
    and "current (fst (thumbnail_stage E P w)) =
      (case fst (get_random_valid_point E P 6) of Inl e \<Rightarrow> current w | Inr c \<Rightarrow> c)"
proof -
  obtain pt lon0 lat0 square where cur: "current w = (pt, lon0, lat0, square)"
    by (cases "current w") auto
  obtain url img evs where f: "fetch_valid_thumbnail E P square 4 8 = ((url, img), evs)"
    by (cases "fetch_valid_thumbnail E P square 4 8") auto
  obtain r evs' where g: "get_random_valid_point E P 6 = (r, evs')"
    by (cases "get_random_valid_point E P 6") auto
  from assms cur f have pt: "pt \<noteq> None" and img: "img = None" by simp_all
  show "trace (fst (thumbnail_stage E P w)) =
      trace w @ snd (fetch_valid_thumbnail E P (snd (snd (snd (current w)))) 4 8) @
        [Sleep (3 / 10), WarnNoImage] @ snd (get_random_valid_point E P 6)"
    using pt img by (cases r) (simp_all add: thumbnail_stage_def cur f g Let_def)
  show "snd (thumbnail_stage E P w) =
      (case fst (get_random_valid_point E P 6) of Inl e \<Rightarrow> Raised e | Inr c \<Rightarrow> Rerun)"
    using pt img by (cases r) (simp_all add: thumbnail_stage_def cur f g Let_def)
  show "current (fst (thumbnail_stage E P w)) =
      (case fst (get_random_valid_point E P 6) of Inl e \<Rightarrow> current w | Inr c \<Rightarrow> c)"
    using pt img by (cases r) (auto simp: thumbnail_stage_def cur f g Let_def)
qed

lemma skip_handler_ctl:
  "snd (skip_handler E P w) =
     (case fst (get_random_valid_point E P 6) of Inl e \<Rightarrow> Raised e | Inr c \<Rightarrow> Rerun)"
  by (cases "get_random_valid_point E P 6"; cases "fst (get_random_valid_point E P 6)")
     (simp_all add: skip_handler_def)

lemma picker_in_sync_content:
  "picker_in_sync w \<Longrightarrow> parquet_content w = map picker_row (load_records (json_file w))"
  by (auto simp: picker_in_sync_def parquet_content_def load_records_def split: json_content.splits)

lemma sentinel_in_sync_content:
  "sentinel_in_sync w \<Longrightarrow> parquet_content w = save_parquet (load_records (json_file w))"
  by (auto simp: sentinel_in_sync_def parquet_content_def load_records_def save_parquet_def
      split: json_content.splits)

lemma picker_save_on_disk:
  assumes "picker_in_sync w"
  shows "picker_in_sync (fst (picker_save E P x y cap (script_start w))) \<and>
    (\<exists>news. load_records (json_file (fst (picker_save E P x y cap (script_start w)))) =
              load_records (json_file w) @ news \<and>
            parquet_content (fst (picker_save E P x y cap (script_start w))) =
              parquet_content w @ map picker_row news)"
proof -
  let ?w' = "fst (picker_save E P x y cap (script_start w))"
  obtain fs where
    d: "(json_file ?w' = json_file (script_start w) \<and> parquet_file ?w' = parquet_file (script_start w)) \<or>
     (json_file ?w' = Content (records (script_start w) @ map (built cap P) fs) \<and>
      parquet_file ?w' = Some (map picker_row (records (script_start w) @ map (built cap P) fs)))"
    by (rule picker_save_effect)
  from d show ?thesis
  proof
    assume "json_file ?w' = json_file (script_start w) \<and> parquet_file ?w' = parquet_file (script_start w)"
    then have j: "json_file ?w' = json_file w" and p: "parquet_file ?w' = parquet_file w" by simp_all
    have "picker_in_sync ?w'" using assms unfolding picker_in_sync_def j p .
    moreover have "load_records (json_file ?w') = load_records (json_file w) @ [] \<and>
        parquet_content ?w' = parquet_content w @ map picker_row []"
      by (simp add: j p parquet_content_def)
    ultimately show ?thesis by blast
  next
    assume a: "json_file ?w' = Content (records (script_start w) @ map (built cap P) fs) \<and>
      parquet_file ?w' = Some (map picker_row (records (script_start w) @ map (built cap P) fs))"
    then have "picker_in_sync ?w'" by (simp add: picker_in_sync_def)
    moreover have "load_records (json_file ?w') = load_records (json_file w) @ map (built cap P) fs"
      using a by (simp add: load_records_def)
    moreover have "parquet_content ?w' =
        map picker_row (load_records (json_file w)) @ map picker_row (map (built cap P) fs)"
      using a by (simp add: parquet_content_def)
    then have "parquet_content ?w' = parquet_content w @ map picker_row (map (built cap P) fs)"
      by (simp only: picker_in_sync_content [OF assms])
    ultimately show ?thesis by blast
  qed
qed

lemma sentinel_submit_on_disk:
  assumes "sentinel_in_sync w"
  shows "sentinel_in_sync (fst (sentinel_submit E P cap (script_start w))) \<and>
    (\<exists>news. load_records (json_file (fst (sentinel_submit E P cap (script_start w)))) =
              load_records (json_file w) @ news \<and>
            parquet_content (fst (sentinel_submit E P cap (script_start w))) =
              parquet_content w @ save_parquet news)"
proof -
  let ?w' = "fst (sentinel_submit E P cap (script_start w))"
  obtain fs where
    d: "(json_file ?w' = json_file (script_start w) \<and> parquet_file ?w' = parquet_file (script_start w)) \<or>
     (json_file ?w' = Content (records (script_start w) @ map (built cap P) fs) \<and>
      parquet_file ?w' = Some (save_parquet (records (script_start w) @ map (built cap P) fs)))"
    by (rule sentinel_submit_effect)
  from d show ?thesis
  proof
    assume "json_file ?w' = json_file (script_start w) \<and> parquet_file ?w' = parquet_file (script_start w)"
    then have j: "json_file ?w' = json_file w" and p: "parquet_file ?w' = parquet_file w" by simp_all
    have "sentinel_in_sync ?w'" using assms unfolding sentinel_in_sync_def j p .
    moreover have "load_records (json_file ?w') = load_records (json_file w) @ [] \<and>
        parquet_content ?w' = parquet_content w @ save_parquet []"
      by (simp add: j p parquet_content_def save_parquet_def)
    ultimately show ?thesis by blast
  next
    assume a: "json_file ?w' = Content (records (script_start w) @ map (built cap P) fs) \<and>
      parquet_file ?w' = Some (save_parquet (records (script_start w) @ map (built cap P) fs))"
    then have "sentinel_in_sync ?w'" by (simp add: sentinel_in_sync_def)
    moreover have "load_records (json_file ?w') = load_records (json_file w) @ map (built cap P) fs"
      using a by (simp add: load_records_def)
    moreover have "parquet_content ?w' =
        save_parquet (load_records (json_file w)) @ save_parquet (map (built cap P) fs)"
      using a by (simp add: parquet_content_def save_parquet_append)
    then have "parquet_content ?w' = parquet_content w @ save_parquet (map (built cap P) fs)"
      by (simp only: sentinel_in_sync_content [OF assms])
    ultimately show ?thesis by blast
  qed
qed

section \<open>Facts about the example inputs\<close>

lemma example_features_wf:
  "\<forall>f\<in>set [feature_two_bands, feature_no_bands]. 2 \<le> length (coordinates f)"
  by (simp add: feature_two_bands_def feature_no_bands_def)

lemma padded_caption_strip: "py_strip padded_caption = str ''dry lake''"
  by (simp add: py_strip_def padded_caption_def str_def py_isspace_def)

lemma blank_caption_strip: "py_strip blank_caption = []"
  by (simp add: py_strip_def blank_caption_def str_def py_isspace_def)

lemma random_draw_no_coverage: "random_draw env_no_coverage example_params i = Inr None"
  by (simp add: random_draw_def env_no_coverage_def env_up_def)

lemma random_draw_down: "random_draw env_down example_params i = Inl EEException"
  by (simp add: random_draw_def env_down_def env_up_def)

lemma thumbnail_try_down: "thumbnail_try env_down example_params sq t i = Inl EEException"
  by (simp add: thumbnail_try_def env_down_def env_up_def)

lemma thumbnail_try_limited: "thumbnail_try env_no_coverage example_params sq t i = Inr None"
  by (simp add: thumbnail_try_def env_no_coverage_def env_up_def)

lemma fresh_world_in_sync: "picker_in_sync fresh_world \<and> sentinel_in_sync fresh_world"
  by (simp add: picker_in_sync_def sentinel_in_sync_def fresh_world_def)

section \<open>The claims\<close>

text \<open>
  C1. A save in either tool, started from the files on disk, on an answer of the
  backend whose features carry both coordinates: the in-memory list grows by the
  number of features returned, the JSON file and the columnar file then hold that many
  rows more than the JSON file held, and the one success message shows that number.
  The Sentinel sampler saves only with a caption that is not blank.
\<close>

theorem saved_count_matches_features:
  assumes "\<forall>f\<in>set feats. 2 \<le> length (coordinates f)"
  shows
    "(sample_info E (Some (BufferBounds (Point x y) (THUMB_METERS P))) (SAMPLE_SCALE P) None = Inr feats \<longrightarrow>
        (let w' = fst (picker_save E P x y cap (script_start w)) in
           length (records w') = length (records (script_start w)) + length feats \<and>
           json_rows w' = json_rows w + length feats \<and>
           parquet_rows w' = json_rows w + length feats \<and>
           saved_msgs (trace w') = [(length feats, cap)])) \<and>
     (py_strip cap \<noteq> [] \<and>
      sample_info E (snd (snd (snd (current w)))) (SAMPLE_SCALE P) (Some 100) = Inr feats \<longrightarrow>
        (let w' = fst (sentinel_submit E P cap (script_start w)) in
           length (records w') = length (records (script_start w)) + length feats \<and>
           json_rows w' = json_rows w + length feats \<and>
           parquet_rows w' = json_rows w + length feats \<and>
           saved_msgs (trace w') = [(length feats, cap)]))"
proof (intro conjI impI)
  assume s: "sample_info E (Some (BufferBounds (Point x y) (THUMB_METERS P))) (SAMPLE_SCALE P) None = Inr feats"
  show "let w' = fst (picker_save E P x y cap (script_start w)) in
           length (records w') = length (records (script_start w)) + length feats \<and>
           json_rows w' = json_rows w + length feats \<and>
           parquet_rows w' = json_rows w + length feats \<and>
           saved_msgs (trace w') = [(length feats, cap)]"
    by (simp add: picker_save_ok [OF assms s] json_rows_def parquet_rows_def load_records_def)
next
  assume "py_strip cap \<noteq> [] \<and>
      sample_info E (snd (snd (snd (current w)))) (SAMPLE_SCALE P) (Some 100) = Inr feats"
  then have ne: "py_strip cap \<noteq> []"
    and s: "sample_info E (snd (snd (snd (current (script_start w))))) (SAMPLE_SCALE P) (Some 100) = Inr feats"
    by simp_all
  show "let w' = fst (sentinel_submit E P cap (script_start w)) in
           length (records w') = length (records (script_start w)) + length feats \<and>
           json_rows w' = json_rows w + length feats \<and>
           parquet_rows w' = json_rows w + length feats \<and>
           saved_msgs (trace w') = [(length feats, cap)]"
    by (simp add: sentinel_submit_ok [OF assms s ne] json_rows_def parquet_rows_def load_records_def
        length_save_parquet saved_msgs_append get_random_valid_point_def saved_msgs_random_point_loop)
qed

theorem saved_count_matches_features_witness:
  "json_rows (fst (picker_save env_up example_params (- 98) 39 padded_caption (script_start fresh_world))) = 2 \<and>
   saved_msgs (trace (fst (picker_save env_up example_params (- 98) 39 padded_caption (script_start fresh_world))))
     = [(2, padded_caption)] \<and>
   parquet_rows (fst (sentinel_submit env_up example_params padded_caption (script_start fresh_world))) = 2 \<and>
   saved_msgs (trace (fst (sentinel_submit env_up example_params padded_caption (script_start fresh_world))))
     = [(2, padded_caption)]"
proof -
  have s1: "sample_info env_up (Some (BufferBounds (Point (- 98) 39) (THUMB_METERS example_params)))
      (SAMPLE_SCALE example_params) None = Inr [feature_two_bands, feature_no_bands]"
    by (simp add: env_up_def)
  have s2: "py_strip padded_caption \<noteq> [] \<and>
      sample_info env_up (snd (snd (snd (current fresh_world)))) (SAMPLE_SCALE example_params) (Some 100)
        = Inr [feature_two_bands, feature_no_bands]"
    by (simp add: env_up_def padded_caption_strip str_def)
  have j: "json_rows fresh_world = 0"
    by (simp add: json_rows_def fresh_world_def load_records_def)
  show ?thesis
    using saved_count_matches_features [OF example_features_wf, of env_up "- 98" 39 example_params
        padded_caption fresh_world] s1 s2 j
    by (simp add: Let_def)
qed

text \<open>
  C2. Every record that a save appends, in either tool, has an \<open>alphaearth\<close> list of
  exactly 64 values; and when the features carry both coordinates, the record appended
  for the \<open>i\<close>-th feature holds that feature's values for the 64 band names, in order.
\<close>

theorem embedding_has_64_values:
  "(\<forall>r\<in>set (drop (length (records w)) (records (fst (picker_save E P x y cap w)))).
      length (alphaearth r) = 64) \<and>
   (\<forall>r\<in>set (drop (length (records w)) (records (fst (sentinel_submit E P cap w)))).
      length (alphaearth r) = 64) \<and>
   ((\<forall>f\<in>set feats. 2 \<le> length (coordinates f)) \<and>
    sample_info E (Some (BufferBounds (Point x y) (THUMB_METERS P))) (SAMPLE_SCALE P) None = Inr feats \<longrightarrow>
      (\<forall>i<length feats.
         alphaearth (records (fst (picker_save E P x y cap w)) ! (length (records w) + i)) =
           map (properties (feats ! i)) band_names)) \<and>
   ((\<forall>f\<in>set feats. 2 \<le> length (coordinates f)) \<and> py_strip cap \<noteq> [] \<and>
    sample_info E (snd (snd (snd (current w)))) (SAMPLE_SCALE P) (Some 100) = Inr feats \<longrightarrow>
      (\<forall>i<length feats.
         alphaearth (records (fst (sentinel_submit E P cap w)) ! (length (records w) + i)) =
           map (properties (feats ! i)) band_names))"
proof (intro conjI)
  obtain fs where "records (fst (picker_save E P x y cap w)) = records w @ map (built cap P) fs"
    by (rule picker_save_effect)
  then show "\<forall>r\<in>set (drop (length (records w)) (records (fst (picker_save E P x y cap w)))).
      length (alphaearth r) = 64"
    by (auto simp: alphaearth_built length_band_names)
next
  obtain fs where "records (fst (sentinel_submit E P cap w)) = records w @ map (built cap P) fs"
    by (rule sentinel_submit_effect)
  then show "\<forall>r\<in>set (drop (length (records w)) (records (fst (sentinel_submit E P cap w)))).
      length (alphaearth r) = 64"
    by (auto simp: alphaearth_built length_band_names)
next
  show "(\<forall>f\<in>set feats. 2 \<le> length (coordinates f)) \<and>
    sample_info E (Some (BufferBounds (Point x y) (THUMB_METERS P))) (SAMPLE_SCALE P) None = Inr feats \<longrightarrow>
      (\<forall>i<length feats.
         alphaearth (records (fst (picker_save E P x y cap w)) ! (length (records w) + i)) =
           map (properties (feats ! i)) band_names)"
    by (auto simp: picker_save_ok alphaearth_built)
next
  show "(\<forall>f\<in>set feats. 2 \<le> length (coordinates f)) \<and> py_strip cap \<noteq> [] \<and>
    sample_info E (snd (snd (snd (current w)))) (SAMPLE_SCALE P) (Some 100) = Inr feats \<longrightarrow>
      (\<forall>i<length feats.
         alphaearth (records (fst (sentinel_submit E P cap w)) ! (length (records w) + i)) =
           map (properties (feats ! i)) band_names)"
    by (auto simp: sentinel_submit_ok alphaearth_built)
qed

theorem embedding_has_64_values_witness:
  "length (alphaearth (records (fst (picker_save env_up example_params (- 98) 39 padded_caption fresh_world)) ! 0)) = 64 \<and>
   length (alphaearth (records (fst (sentinel_submit env_up example_params padded_caption fresh_world)) ! 1)) = 64 \<and>
   alphaearth (records (fst (picker_save env_up example_params (- 98) 39 padded_caption fresh_world)) ! 1) =
     map (properties feature_no_bands) band_names"
proof -
  have s1: "sample_info env_up (Some (BufferBounds (Point (- 98) 39) (THUMB_METERS example_params)))
      (SAMPLE_SCALE example_params) None = Inr [feature_two_bands, feature_no_bands]"
    by (simp add: env_up_def)
  have s2: "sample_info env_up (snd (snd (snd (current fresh_world)))) (SAMPLE_SCALE example_params) (Some 100)
        = Inr [feature_two_bands, feature_no_bands]"
    by (simp add: env_up_def)
  have ne: "py_strip padded_caption \<noteq> []"
    by (simp add: padded_caption_strip str_def)
  have r0: "records fresh_world = []" by (simp add: fresh_world_def)
  have p: "records (fst (picker_save env_up example_params (- 98) 39 padded_caption fresh_world)) =
      map (built padded_caption example_params) [feature_two_bands, feature_no_bands]"
    by (simp add: picker_save_ok [OF example_features_wf s1] r0)
  have q: "records (fst (sentinel_submit env_up example_params padded_caption fresh_world)) =
      map (built padded_caption example_params) [feature_two_bands, feature_no_bands]"
    by (simp add: sentinel_submit_ok [OF example_features_wf s2 ne] r0)
  have m1: "records (fst (picker_save env_up example_params (- 98) 39 padded_caption fresh_world)) ! 0
      \<in> set (drop (length (records fresh_world))
          (records (fst (picker_save env_up example_params (- 98) 39 padded_caption fresh_world))))"
    by (simp add: p r0)
  have m2: "records (fst (sentinel_submit env_up example_params padded_caption fresh_world)) ! 1
      \<in> set (drop (length (records fresh_world))
          (records (fst (sentinel_submit env_up example_params padded_caption fresh_world))))"
    by (simp add: q r0)
  have i1: "(1::nat) < length [feature_two_bands, feature_no_bands]" by simp
  note t = embedding_has_64_values [of fresh_world env_up example_params "- 98" 39 padded_caption
      "[feature_two_bands, feature_no_bands]"]
  from t m1 have a: "length (alphaearth (records (fst (picker_save env_up example_params (- 98) 39 padded_caption fresh_world)) ! 0)) = 64"
    by blast
  from t m2 have b: "length (alphaearth (records (fst (sentinel_submit env_up example_params padded_caption fresh_world)) ! 1)) = 64"
    by blast
  from t example_features_wf s1 i1 have
    "alphaearth (records (fst (picker_save env_up example_params (- 98) 39 padded_caption fresh_world)) !
        (length (records fresh_world) + 1)) =
      map (properties ([feature_two_bands, feature_no_bands] ! 1)) band_names"
    by blast
  then have c: "alphaearth (records (fst (picker_save env_up example_params (- 98) 39 padded_caption fresh_world)) ! 1) =
     map (properties feature_no_bands) band_names"
    by (simp add: r0)
  from a b c show ?thesis by simp
qed

text \<open>
  C3. After a save, in either tool, the JSON file holds the in-memory list of records,
  and the columnar file holds one row per record of that list, in the same order, each
  row reading back as the record it was written from.
\<close>

theorem files_hold_same_records:
  assumes "\<forall>f\<in>set feats. 2 \<le> length (coordinates f)"
  shows
    "(sample_info E (Some (BufferBounds (Point x y) (THUMB_METERS P))) (SAMPLE_SCALE P) None = Inr feats \<longrightarrow>
        (let w' = fst (picker_save E P x y cap w) in
           json_file w' = Content (records w') \<and>
           (\<exists>rows. parquet_file w' = Some rows \<and> map record_of_row rows = map Some (records w')))) \<and>
     (py_strip cap \<noteq> [] \<and>
      sample_info E (snd (snd (snd (current w)))) (SAMPLE_SCALE P) (Some 100) = Inr feats \<longrightarrow>
        (let w' = fst (sentinel_submit E P cap w) in
           json_file w' = Content (records w') \<and>
           (\<exists>rows. parquet_file w' = Some rows \<and> map record_of_row rows = map Some (records w'))))"
proof (intro conjI impI)
  assume s: "sample_info E (Some (BufferBounds (Point x y) (THUMB_METERS P))) (SAMPLE_SCALE P) None = Inr feats"
  show "let w' = fst (picker_save E P x y cap w) in
           json_file w' = Content (records w') \<and>
           (\<exists>rows. parquet_file w' = Some rows \<and> map record_of_row rows = map Some (records w'))"
    by (simp add: picker_save_ok [OF assms s] record_of_picker_row comp_def)
next
  assume "py_strip cap \<noteq> [] \<and>
      sample_info E (snd (snd (snd (current w)))) (SAMPLE_SCALE P) (Some 100) = Inr feats"
  then have ne: "py_strip cap \<noteq> []"
    and s: "sample_info E (snd (snd (snd (current w)))) (SAMPLE_SCALE P) (Some 100) = Inr feats"
    by simp_all
  show "let w' = fst (sentinel_submit E P cap w) in
           json_file w' = Content (records w') \<and>
           (\<exists>rows. parquet_file w' = Some rows \<and> map record_of_row rows = map Some (records w'))"
    by (simp add: sentinel_submit_ok [OF assms s ne] record_of_save_parquet)
qed

theorem files_hold_same_records_witness:
  "(\<exists>rows. parquet_file (fst (picker_save env_up example_params (- 98) 39 padded_caption fresh_world)) = Some rows \<and>
      map record_of_row rows =
        map Some (load_records (json_file (fst (picker_save env_up example_params (- 98) 39 padded_caption fresh_world))))) \<and>
   (\<exists>rows. parquet_file (fst (sentinel_submit env_up example_params padded_caption fresh_world)) = Some rows \<and>
      map record_of_row rows =
        map Some (load_records (json_file (fst (sentinel_submit env_up example_params padded_caption fresh_world)))))"
proof -
  have s1: "sample_info env_up (Some (BufferBounds (Point (- 98) 39) (THUMB_METERS example_params)))
      (SAMPLE_SCALE example_params) None = Inr [feature_two_bands, feature_no_bands]"
    by (simp add: env_up_def)
  have s2: "py_strip padded_caption \<noteq> [] \<and>
      sample_info env_up (snd (snd (snd (current fresh_world)))) (SAMPLE_SCALE example_params) (Some 100)
        = Inr [feature_two_bands, feature_no_bands]"
    by (simp add: env_up_def padded_caption_strip str_def)
  show ?thesis
    using files_hold_same_records [OF example_features_wf, of env_up "- 98" 39 example_params
        padded_caption fresh_world] s1 s2
    by (simp add: Let_def load_records_def)
qed

text \<open>
  C4. Records are append-only. The save of either tool leaves the records it started
  with where they were and adds records after them only, and each file is either left
  as it was or rewritten with the old records first and the new ones after them. On
  the disk: when the two files of a tool are in step, a run that saves leaves them in
  step, and what each file held before is the beginning of what it holds after.
  Skipping and the thumbnail stage touch neither the list nor the files, and a run
  starts from the records of the JSON file without touching the files.
\<close>

theorem records_append_only:
  "(\<exists>news. records (fst (picker_save E P x y cap w)) = records w @ news \<and>
      (json_file (fst (picker_save E P x y cap w)) = json_file w \<or>
       json_file (fst (picker_save E P x y cap w)) = Content (records w @ news)) \<and>
      (parquet_file (fst (picker_save E P x y cap w)) = parquet_file w \<or>
       parquet_file (fst (picker_save E P x y cap w)) =
         Some (map picker_row (records w) @ map picker_row news))) \<and>
   (\<exists>news. records (fst (sentinel_submit E P cap w)) = records w @ news \<and>
      (json_file (fst (sentinel_submit E P cap w)) = json_file w \<or>
       json_file (fst (sentinel_submit E P cap w)) = Content (records w @ news)) \<and>
      (parquet_file (fst (sentinel_submit E P cap w)) = parquet_file w \<or>
       parquet_file (fst (sentinel_submit E P cap w)) =
         Some (save_parquet (records w) @ save_parquet news))) \<and>
   (picker_in_sync w \<longrightarrow>
      picker_in_sync (fst (picker_save E P x y cap (script_start w))) \<and>
      (\<exists>news. load_records (json_file (fst (picker_save E P x y cap (script_start w)))) =
                load_records (json_file w) @ news \<and>
              parquet_content (fst (picker_save E P x y cap (script_start w))) =
                parquet_content w @ map picker_row news)) \<and>
   (sentinel_in_sync w \<longrightarrow>
      sentinel_in_sync (fst (sentinel_submit E P cap (script_start w))) \<and>
      (\<exists>news. load_records (json_file (fst (sentinel_submit E P cap (script_start w)))) =
                load_records (json_file w) @ news \<and>
              parquet_content (fst (sentinel_submit E P cap (script_start w))) =
                parquet_content w @ save_parquet news)) \<and>
   (records (fst (skip_handler E P w)) = records w \<and>
    json_file (fst (skip_handler E P w)) = json_file w \<and>
    parquet_file (fst (skip_handler E P w)) = parquet_file w) \<and>
   (records (fst (thumbnail_stage E P w)) = records w \<and>
    json_file (fst (thumbnail_stage E P w)) = json_file w \<and>
    parquet_file (fst (thumbnail_stage E P w)) = parquet_file w) \<and>
   (records (script_start w) = load_records (json_file w) \<and>
    json_file (script_start w) = json_file w \<and>
    parquet_file (script_start w) = parquet_file w)"
proof -
  obtain fs where
    "records (fst (picker_save E P x y cap w)) = records w @ map (built cap P) fs"
    "(json_file (fst (picker_save E P x y cap w)) = json_file w \<and>
      parquet_file (fst (picker_save E P x y cap w)) = parquet_file w) \<or>
     (json_file (fst (picker_save E P x y cap w)) = Content (records w @ map (built cap P) fs) \<and>
      parquet_file (fst (picker_save E P x y cap w)) =
        Some (map picker_row (records w @ map (built cap P) fs)))"
    by (rule picker_save_effect)
  then have "records (fst (picker_save E P x y cap w)) = records w @ map (built cap P) fs \<and>
      (json_file (fst (picker_save E P x y cap w)) = json_file w \<or>
       json_file (fst (picker_save E P x y cap w)) = Content (records w @ map (built cap P) fs)) \<and>
      (parquet_file (fst (picker_save E P x y cap w)) = parquet_file w \<or>
       parquet_file (fst (picker_save E P x y cap w)) =
         Some (map picker_row (records w) @ map picker_row (map (built cap P) fs)))"
    by auto
  then have a: "\<exists>news. records (fst (picker_save E P x y cap w)) = records w @ news \<and>
      (json_file (fst (picker_save E P x y cap w)) = json_file w \<or>
       json_file (fst (picker_save E P x y cap w)) = Content (records w @ news)) \<and>
      (parquet_file (fst (picker_save E P x y cap w)) = parquet_file w \<or>
       parquet_file (fst (picker_save E P x y cap w)) =
         Some (map picker_row (records w) @ map picker_row news))"
    by (rule exI)
  obtain gs where
    "records (fst (sentinel_submit E P cap w)) = records w @ map (built cap P) gs"
    "(json_file (fst (sentinel_submit E P cap w)) = json_file w \<and>
      parquet_file (fst (sentinel_submit E P cap w)) = parquet_file w) \<or>
     (json_file (fst (sentinel_submit E P cap w)) = Content (records w @ map (built cap P) gs) \<and>
      parquet_file (fst (sentinel_submit E P cap w)) =
        Some (save_parquet (records w @ map (built cap P) gs)))"
    by (rule sentinel_submit_effect)
  then have "records (fst (sentinel_submit E P cap w)) = records w @ map (built cap P) gs \<and>
      (json_file (fst (sentinel_submit E P cap w)) = json_file w \<or>
       json_file (fst (sentinel_submit E P cap w)) = Content (records w @ map (built cap P) gs)) \<and>
      (parquet_file (fst (sentinel_submit E P cap w)) = parquet_file w \<or>
       parquet_file (fst (sentinel_submit E P cap w)) =
         Some (save_parquet (records w) @ save_parquet (map (built cap P) gs)))"
    by (auto simp: save_parquet_append)
  then have b: "\<exists>news. records (fst (sentinel_submit E P cap w)) = records w @ news \<and>
      (json_file (fst (sentinel_submit E P cap w)) = json_file w \<or>
       json_file (fst (sentinel_submit E P cap w)) = Content (records w @ news)) \<and>
      (parquet_file (fst (sentinel_submit E P cap w)) = parquet_file w \<or>
       parquet_file (fst (sentinel_submit E P cap w)) =
         Some (save_parquet (records w) @ save_parquet news))"
    by (rule exI)
  note c = picker_save_on_disk [of w E P x y cap] sentinel_submit_on_disk [of w E P cap]
  note d = skip_handler_frame [of E P w] thumbnail_stage_frame [of E P w]
  have e: "records (script_start w) = load_records (json_file w) \<and>
    json_file (script_start w) = json_file w \<and>
    parquet_file (script_start w) = parquet_file w"
    by simp
  from a b c d e show ?thesis by (intro conjI impI) blast+
qed

theorem records_append_only_witness:
  "take 2 (records (fst (picker_save env_up example_params (- 98) 39 blank_caption
      (script_start (fst (picker_save env_up example_params (- 98) 39 padded_caption fresh_world)))))) =
   load_records (json_file (fst (picker_save env_up example_params (- 98) 39 padded_caption fresh_world))) \<and>
   take 2 (records (fst (sentinel_submit env_up example_params padded_caption
      (script_start (fst (picker_save env_up example_params (- 98) 39 padded_caption fresh_world)))))) =
   load_records (json_file (fst (picker_save env_up example_params (- 98) 39 padded_caption fresh_world))) \<and>
   picker_in_sync (fst (picker_save env_up example_params (- 98) 39 padded_caption (script_start fresh_world))) \<and>
   sentinel_in_sync (fst (sentinel_submit env_up example_params padded_caption (script_start fresh_world)))"
proof -
  define w1 where "w1 = fst (picker_save env_up example_params (- 98) 39 padded_caption fresh_world)"
  have s1: "sample_info env_up (Some (BufferBounds (Point (- 98) 39) (THUMB_METERS example_params)))
      (SAMPLE_SCALE example_params) None = Inr [feature_two_bands, feature_no_bands]"
    by (simp add: env_up_def)
  have l: "length (load_records (json_file w1)) = 2"
    by (simp add: w1_def picker_save_ok [OF example_features_wf s1] load_records_def fresh_world_def)
  note t = records_append_only [of env_up example_params "- 98" 39 _ "script_start w1"]
  from t [of blank_caption] obtain n1 where
    "records (fst (picker_save env_up example_params (- 98) 39 blank_caption (script_start w1))) =
       records (script_start w1) @ n1"
    by blast
  then have a: "take 2 (records (fst (picker_save env_up example_params (- 98) 39 blank_caption (script_start w1)))) =
      load_records (json_file w1)"
    using l by simp
  from t [of padded_caption] obtain n2 where
    "records (fst (sentinel_submit env_up example_params padded_caption (script_start w1))) =
       records (script_start w1) @ n2"
    by blast
  then have b: "take 2 (records (fst (sentinel_submit env_up example_params padded_caption (script_start w1)))) =
      load_records (json_file w1)"
    using l by simp
  note u = records_append_only [of env_up example_params "- 98" 39 padded_caption fresh_world]
  from u fresh_world_in_sync have c:
    "picker_in_sync (fst (picker_save env_up example_params (- 98) 39 padded_caption (script_start fresh_world)))"
    "sentinel_in_sync (fst (sentinel_submit env_up example_params padded_caption (script_start fresh_world)))"
    by blast+
  from a b c show ?thesis unfolding w1_def by simp
qed

text \<open>
  C5, as amended. Saving again is not idempotent in the row count: when the backend
  returns the same features to a second save, that save appends them again, so both
  files hold the rows of the first save plus one row per feature; the count stays the
  same only for an empty feature list.
\<close>

theorem resave_adds_rows_again:
  assumes "\<forall>f\<in>set feats. 2 \<le> length (coordinates f)"
  shows
    "(sample_info E (Some (BufferBounds (Point x y) (THUMB_METERS P))) (SAMPLE_SCALE P) None = Inr feats \<longrightarrow>
        (let w1 = fst (picker_save E P x y cap (script_start w));
             w2 = fst (picker_save E P x y cap (script_start w1)) in
           json_rows w2 = json_rows w1 + length feats \<and>
           parquet_rows w2 = parquet_rows w1 + length feats \<and>
           (json_rows w2 = json_rows w1 \<longleftrightarrow> feats = []))) \<and>
     (py_strip cap \<noteq> [] \<and> (\<forall>sq. sample_info E sq (SAMPLE_SCALE P) (Some 100) = Inr feats) \<longrightarrow>
        (let w1 = fst (sentinel_submit E P cap (script_start w));
             w2 = fst (sentinel_submit E P cap (script_start w1)) in
           json_rows w2 = json_rows w1 + length feats \<and>
           parquet_rows w2 = parquet_rows w1 + length feats \<and>
           (json_rows w2 = json_rows w1 \<longleftrightarrow> feats = [])))"
proof (intro conjI impI)
  assume s: "sample_info E (Some (BufferBounds (Point x y) (THUMB_METERS P))) (SAMPLE_SCALE P) None = Inr feats"
  show "let w1 = fst (picker_save E P x y cap (script_start w));
             w2 = fst (picker_save E P x y cap (script_start w1)) in
           json_rows w2 = json_rows w1 + length feats \<and>
           parquet_rows w2 = parquet_rows w1 + length feats \<and>
           (json_rows w2 = json_rows w1 \<longleftrightarrow> feats = [])"
    by (simp add: picker_save_ok [OF assms s] json_rows_def parquet_rows_def load_records_def)
next
  assume "py_strip cap \<noteq> [] \<and> (\<forall>sq. sample_info E sq (SAMPLE_SCALE P) (Some 100) = Inr feats)"
  then have ne: "py_strip cap \<noteq> []"
    and s: "\<And>sq. sample_info E sq (SAMPLE_SCALE P) (Some 100) = Inr feats"
    by simp_all
  show "let w1 = fst (sentinel_submit E P cap (script_start w));
             w2 = fst (sentinel_submit E P cap (script_start w1)) in
           json_rows w2 = json_rows w1 + length feats \<and>
           parquet_rows w2 = parquet_rows w1 + length feats \<and>
           (json_rows w2 = json_rows w1 \<longleftrightarrow> feats = [])"
    by (simp add: sentinel_submit_ok [OF assms s ne] json_rows_def parquet_rows_def load_records_def
        length_save_parquet)
qed

theorem resave_adds_rows_again_witness:
  "json_rows (fst (picker_save env_up example_params (- 98) 39 padded_caption
      (script_start (fst (picker_save env_up example_params (- 98) 39 padded_caption
         (script_start fresh_world)))))) =
   json_rows (fst (picker_save env_up example_params (- 98) 39 padded_caption (script_start fresh_world))) + 2 \<and>
   parquet_rows (fst (sentinel_submit env_up example_params padded_caption
      (script_start (fst (sentinel_submit env_up example_params padded_caption
         (script_start fresh_world)))))) =
   parquet_rows (fst (sentinel_submit env_up example_params padded_caption (script_start fresh_world))) + 2"
proof -
  have s1: "sample_info env_up (Some (BufferBounds (Point (- 98) 39) (THUMB_METERS example_params)))
      (SAMPLE_SCALE example_params) None = Inr [feature_two_bands, feature_no_bands]"
    by (simp add: env_up_def)
  have s2: "py_strip padded_caption \<noteq> [] \<and>
      (\<forall>sq. sample_info env_up sq (SAMPLE_SCALE example_params) (Some 100)
        = Inr [feature_two_bands, feature_no_bands])"
    by (simp add: env_up_def padded_caption_strip str_def)
  show ?thesis
    using resave_adds_rows_again [OF example_features_wf, of env_up "- 98" 39 example_params
        padded_caption fresh_world] s1 s2
    by (simp add: Let_def)
qed

text \<open>
  C5 as stated (the row count after a second save with the same features equals the
  count after the first) fails: two features saved twice into an empty dataset give
  two rows, then four.
\<close>

theorem resave_same_features_counterexample:
  "json_rows (fst (picker_save env_up example_params (- 98) 39 padded_caption
      (script_start (fst (picker_save env_up example_params (- 98) 39 padded_caption
         (script_start fresh_world)))))) \<noteq>
   json_rows (fst (picker_save env_up example_params (- 98) 39 padded_caption (script_start fresh_world))) \<and>
   json_rows (fst (picker_save env_up example_params (- 98) 39 padded_caption (script_start fresh_world))) = 2 \<and>
   json_rows (fst (picker_save env_up example_params (- 98) 39 padded_caption
      (script_start (fst (picker_save env_up example_params (- 98) 39 padded_caption
         (script_start fresh_world)))))) = 4 \<and>
   parquet_rows (fst (sentinel_submit env_up example_params padded_caption (script_start fresh_world))) = 2 \<and>
   parquet_rows (fst (sentinel_submit env_up example_params padded_caption
      (script_start (fst (sentinel_submit env_up example_params padded_caption
         (script_start fresh_world)))))) = 4"
proof -
  have s1: "sample_info env_up (Some (BufferBounds (Point (- 98) 39) (THUMB_METERS example_params)))
      (SAMPLE_SCALE example_params) None = Inr [feature_two_bands, feature_no_bands]"
    by (simp add: env_up_def)
  have s2: "\<And>sq. sample_info env_up sq (SAMPLE_SCALE example_params) (Some 100)
        = Inr [feature_two_bands, feature_no_bands]"
    by (simp add: env_up_def)
  have ne: "py_strip padded_caption \<noteq> []"
    by (simp add: padded_caption_strip str_def)
  have j: "load_records (json_file fresh_world) = []"
    by (simp add: fresh_world_def load_records_def)
  show ?thesis
    by (simp add: picker_save_ok [OF example_features_wf s1]
        sentinel_submit_ok [OF example_features_wf s2 ne]
        json_rows_def parquet_rows_def load_records_def length_save_parquet fresh_world_def)
qed

text \<open>
  C6. Both retry loops are bounded, and both functions are total. For every
  environment, \<open>get_random_valid_point\<close> draws at most \<open>max_tries\<close> seeds (6 at
  every call of the script) and returns the tuple of four \<open>None\<close> when every draw
  comes back without coverage; \<open>fetch_valid_thumbnail\<close> makes at most \<open>tries\<close>
  attempts (4 at its call), sleeps at most once per attempt and always for half a
  second, and returns \<open>(None, None)\<close> when no attempt yields an image.
\<close>

theorem retry_loops_bounded:
  "length (draw_seeds (snd (get_random_valid_point E P max_tries))) \<le> max_tries \<and>
   ((\<forall>i<max_tries. random_draw E P i = Inr None) \<longrightarrow>
      get_random_valid_point E P max_tries =
        (Inr (None, None, None, None), map (\<lambda>i. Draw (randint E i)) [0..<max_tries])) \<and>
   length (thumb_attempts (snd (fetch_valid_thumbnail E P square tries timeout))) \<le> tries \<and>
   length (sleep_durations (snd (fetch_valid_thumbnail E P square tries timeout))) \<le> tries \<and>
   set (sleep_durations (snd (fetch_valid_thumbnail E P square tries timeout))) \<subseteq> {1 / 2} \<and>
   ((\<forall>i<tries. \<forall>r. thumbnail_try E P square timeout i \<noteq> Inr (Some r)) \<longrightarrow>
      fst (fetch_valid_thumbnail E P square tries timeout) = (None, None) \<and>
      thumb_attempts (snd (fetch_valid_thumbnail E P square tries timeout)) = [0..<tries])"
proof (intro conjI impI)
  show "length (draw_seeds (snd (get_random_valid_point E P max_tries))) \<le> max_tries"
    by (simp add: get_random_valid_point_def random_point_loop_draws)
next
  assume "\<forall>i<max_tries. random_draw E P i = Inr None"
  then have "\<forall>j<max_tries. random_draw E P (0 + j) = Inr None" by simp
  from random_point_loop_none [OF this]
  show "get_random_valid_point E P max_tries =
        (Inr (None, None, None, None), map (\<lambda>i. Draw (randint E i)) [0..<max_tries])"
    by (simp add: get_random_valid_point_def)
next
  show "length (thumb_attempts (snd (fetch_valid_thumbnail E P square tries timeout))) \<le> tries"
    by (simp add: fetch_valid_thumbnail_def fetch_loop_attempts)
next
  show "length (sleep_durations (snd (fetch_valid_thumbnail E P square tries timeout))) \<le> tries"
    using fetch_loop_sleeps [of E P square timeout tries 0] by (simp add: fetch_valid_thumbnail_def)
next
  show "set (sleep_durations (snd (fetch_valid_thumbnail E P square tries timeout))) \<subseteq> {1 / 2}"
    using fetch_loop_sleeps [of E P square timeout tries 0] by (simp add: fetch_valid_thumbnail_def)
next
  assume "\<forall>i<tries. \<forall>r. thumbnail_try E P square timeout i \<noteq> Inr (Some r)"
  then have "\<forall>j<tries. \<forall>r. thumbnail_try E P square timeout (0 + j) \<noteq> Inr (Some r)" by simp
  from fetch_loop_fail [OF this]
  show "fst (fetch_valid_thumbnail E P square tries timeout) = (None, None)"
    and "thumb_attempts (snd (fetch_valid_thumbnail E P square tries timeout)) = [0..<tries]"
    by (simp_all add: fetch_valid_thumbnail_def)
qed

theorem retry_loops_bounded_witness:
  "get_random_valid_point env_no_coverage example_params 6 =
     (Inr (None, None, None, None), [Draw 4242, Draw 4243, Draw 4244, Draw 4245, Draw 4246, Draw 4247]) \<and>
   fst (fetch_valid_thumbnail env_down example_params (Some (BufferBounds (RandomPoint 7) 1000)) 4 8) = (None, None) \<and>
   thumb_attempts (snd (fetch_valid_thumbnail env_down example_params (Some (BufferBounds (RandomPoint 7) 1000)) 4 8))
     = [0, 1, 2, 3]"
proof -
  have d: "\<forall>i<6. random_draw env_no_coverage example_params i = Inr None"
    by (simp add: random_draw_no_coverage)
  have f: "\<forall>i<4. \<forall>r. thumbnail_try env_down example_params (Some (BufferBounds (RandomPoint 7) 1000)) 8 i
      \<noteq> Inr (Some r)"
    by (simp add: thumbnail_try_down)
  have u6: "[0..<6] = [0, 1, 2, 3, 4, 5 :: nat]" by (simp add: upt_rec)
  have u4: "[0..<4] = [0, 1, 2, 3 :: nat]" by (simp add: upt_rec)
  have r: "randint env_no_coverage = (\<lambda>i. 4242 + i)"
    by (simp add: env_no_coverage_def env_up_def)
  show ?thesis
    using retry_loops_bounded [where E = env_no_coverage and P = example_params and max_tries = 6] d
      retry_loops_bounded [where E = env_down and P = example_params and tries = 4 and timeout = 8
        and square = "Some (BufferBounds (RandomPoint 7) 1000)"] f
    by (simp add: u6 u4 r)
qed

text \<open>
  C7, as amended. \<open>fetch_valid_thumbnail\<close> never raises: it makes at most 4
  attempts, sleeps half a second once for each attempt that raised, and returns either
  a URL with its image or \<open>(None, None)\<close>, the latter when every attempt raises
  (four attempts, four sleeps); the script then warns and draws a new random point. In
  \<open>get_random_valid_point\<close> only a draw without coverage is handled, by drawing
  again, at most 6 times. An exception raised by a call of a draw is not caught: the
  function raises exactly when a draw raises after draws without coverage only, and
  the exception then leaves the skip handler and the warning branch, which end with it
  instead of a rerun.
\<close>

theorem backend_failures_handling:
  "(fst (fetch_valid_thumbnail E P square 4 8) = (None, None) \<or>
    (\<exists>url img. fst (fetch_valid_thumbnail E P square 4 8) = (Some url, Some img))) \<and>
   ((\<forall>i<4. \<exists>e. thumbnail_try E P square 8 i = Inl e) \<longrightarrow>
      fst (fetch_valid_thumbnail E P square 4 8) = (None, None)) \<and>
   (fst (get_random_valid_point E P 6) = Inl e \<longleftrightarrow>
      (\<exists>j<6. random_draw E P j = Inl e \<and> (\<forall>m<j. random_draw E P m = Inr None))) \<and>
   (fst (current w) \<noteq> None \<and>
    snd (fst (fetch_valid_thumbnail E P (snd (snd (snd (current w)))) 4 8)) = None \<longrightarrow>
      WarnNoImage \<in> set (trace (fst (thumbnail_stage E P w))) \<and>
      snd (thumbnail_stage E P w) =
        (case fst (get_random_valid_point E P 6) of Inl e \<Rightarrow> Raised e | Inr c \<Rightarrow> Rerun)) \<and>
   length (thumb_attempts (snd (fetch_valid_thumbnail E P square 4 8))) \<le> 4 \<and>
   sleep_durations (snd (fetch_valid_thumbnail E P square 4 8)) =
     replicate (length (filter (\<lambda>i. isl (thumbnail_try E P square 8 i))
                          (thumb_attempts (snd (fetch_valid_thumbnail E P square 4 8))))) (1 / 2) \<and>
   ((\<forall>i<4. \<exists>e. thumbnail_try E P square 8 i = Inl e) \<longrightarrow>
      thumb_attempts (snd (fetch_valid_thumbnail E P square 4 8)) = [0, 1, 2, 3] \<and>
      sleep_durations (snd (fetch_valid_thumbnail E P square 4 8)) = [1 / 2, 1 / 2, 1 / 2, 1 / 2]) \<and>
   length (draw_seeds (snd (get_random_valid_point E P 6))) \<le> 6 \<and>
   ((\<forall>i<6. random_draw E P i = Inr None) \<longrightarrow>
      fst (get_random_valid_point E P 6) = Inr (None, None, None, None)) \<and>
   snd (skip_handler E P w) =
     (case fst (get_random_valid_point E P 6) of Inl e \<Rightarrow> Raised e | Inr c \<Rightarrow> Rerun) \<and>
   (fst (get_random_valid_point E P 6) = Inl e \<longrightarrow> snd (skip_handler E P w) = Raised e) \<and>
   (fst (current w) \<noteq> None \<and>
    snd (fst (fetch_valid_thumbnail E P (snd (snd (snd (current w)))) 4 8)) = None \<longrightarrow>
      trace (fst (thumbnail_stage E P w)) =
        trace w @ snd (fetch_valid_thumbnail E P (snd (snd (snd (current w)))) 4 8) @
          [Sleep (3 / 10), WarnNoImage] @ snd (get_random_valid_point E P 6) \<and>
      (fst (get_random_valid_point E P 6) = Inl e \<longrightarrow> snd (thumbnail_stage E P w) = Raised e))"
proof -
  have c1: "fst (fetch_valid_thumbnail E P square 4 8) = (None, None) \<or>
    (\<exists>url img. fst (fetch_valid_thumbnail E P square 4 8) = (Some url, Some img))"
    unfolding fetch_valid_thumbnail_def by (rule fetch_loop_result)
  have raise_fail: "fst (fetch_valid_thumbnail E P square 4 8) = (None, None) \<and>
      thumb_attempts (snd (fetch_valid_thumbnail E P square 4 8)) = [0..<4]"
    if a: "\<forall>i<4. \<exists>e. thumbnail_try E P square 8 i = Inl e"
  proof -
    have "\<forall>j<4. \<forall>r. thumbnail_try E P square 8 (0 + j) \<noteq> Inr (Some r)"
    proof (intro allI impI)
      fix j :: nat and r assume "j < 4"
      with a obtain e where "thumbnail_try E P square 8 j = Inl e" by blast
      then show "thumbnail_try E P square 8 (0 + j) \<noteq> Inr (Some r)" by simp
    qed
    from fetch_loop_fail [OF this] show ?thesis by (simp add: fetch_valid_thumbnail_def)
  qed
  have c2: "(\<forall>i<4. \<exists>e. thumbnail_try E P square 8 i = Inl e) \<longrightarrow>
      fst (fetch_valid_thumbnail E P square 4 8) = (None, None)"
    using raise_fail by blast
  have c3: "fst (get_random_valid_point E P 6) = Inl e \<longleftrightarrow>
      (\<exists>j<6. random_draw E P j = Inl e \<and> (\<forall>m<j. random_draw E P m = Inr None))"
    using random_point_loop_Inl [of E P 6 0 e] by (simp add: get_random_valid_point_def)
  have stage: "WarnNoImage \<in> set (trace (fst (thumbnail_stage E P w))) \<and>
      snd (thumbnail_stage E P w) =
        (case fst (get_random_valid_point E P 6) of Inl e \<Rightarrow> Raised e | Inr c \<Rightarrow> Rerun) \<and>
      trace (fst (thumbnail_stage E P w)) =
        trace w @ snd (fetch_valid_thumbnail E P (snd (snd (snd (current w)))) 4 8) @
          [Sleep (3 / 10), WarnNoImage] @ snd (get_random_valid_point E P 6) \<and>
      (fst (get_random_valid_point E P 6) = Inl e \<longrightarrow> snd (thumbnail_stage E P w) = Raised e)"
    if h: "fst (current w) \<noteq> None \<and>
      snd (fst (fetch_valid_thumbnail E P (snd (snd (snd (current w)))) 4 8)) = None"
  proof -
    from h have a: "fst (current w) \<noteq> None"
      and b: "snd (fst (fetch_valid_thumbnail E P (snd (snd (snd (current w)))) 4 8)) = None"
      by simp_all
    note t = thumbnail_stage_no_image(1) [OF a b] and s = thumbnail_stage_no_image(2) [OF a b]
    have "WarnNoImage \<in> set (trace (fst (thumbnail_stage E P w)))" by (simp add: t)
    moreover have "fst (get_random_valid_point E P 6) = Inl e \<longrightarrow> snd (thumbnail_stage E P w) = Raised e"
      by (simp add: s)
    ultimately show ?thesis using t s by blast
  qed
  have c4: "fst (current w) \<noteq> None \<and>
    snd (fst (fetch_valid_thumbnail E P (snd (snd (snd (current w)))) 4 8)) = None \<longrightarrow>
      WarnNoImage \<in> set (trace (fst (thumbnail_stage E P w))) \<and>
      snd (thumbnail_stage E P w) =
        (case fst (get_random_valid_point E P 6) of Inl e \<Rightarrow> Raised e | Inr c \<Rightarrow> Rerun)"
    using stage by blast
  have c5: "length (thumb_attempts (snd (fetch_valid_thumbnail E P square 4 8))) \<le> 4"
    by (simp add: fetch_valid_thumbnail_def fetch_loop_attempts)
  have c6: "sleep_durations (snd (fetch_valid_thumbnail E P square 4 8)) =
     replicate (length (filter (\<lambda>i. isl (thumbnail_try E P square 8 i))
                          (thumb_attempts (snd (fetch_valid_thumbnail E P square 4 8))))) (1 / 2)"
    unfolding fetch_valid_thumbnail_def by (rule fetch_loop_sleep_count)
  have c7: "(\<forall>i<4. \<exists>e. thumbnail_try E P square 8 i = Inl e) \<longrightarrow>
      thumb_attempts (snd (fetch_valid_thumbnail E P square 4 8)) = [0, 1, 2, 3] \<and>
      sleep_durations (snd (fetch_valid_thumbnail E P square 4 8)) = [1 / 2, 1 / 2, 1 / 2, 1 / 2]"
  proof
    assume a: "\<forall>i<4. \<exists>e. thumbnail_try E P square 8 i = Inl e"
    have u4: "[0..<4] = [0, 1, 2, 3 :: nat]" by (simp add: upt_rec)
    from raise_fail [OF a] have at: "thumb_attempts (snd (fetch_valid_thumbnail E P square 4 8)) = [0, 1, 2, 3]"
      by (simp add: u4)
    have "\<forall>j\<in>set (thumb_attempts (snd (fetch_valid_thumbnail E P square 4 8))).
        isl (thumbnail_try E P square 8 j)"
    proof
      fix j assume "j \<in> set (thumb_attempts (snd (fetch_valid_thumbnail E P square 4 8)))"
      then have "j < 4" by (auto simp: at)
      with a obtain e where "thumbnail_try E P square 8 j = Inl e" by blast
      then show "isl (thumbnail_try E P square 8 j)" by simp
    qed
    then have "filter (\<lambda>i. isl (thumbnail_try E P square 8 i))
        (thumb_attempts (snd (fetch_valid_thumbnail E P square 4 8))) =
        thumb_attempts (snd (fetch_valid_thumbnail E P square 4 8))"
      by (simp only: filter_id_conv)
    with c6 have "sleep_durations (snd (fetch_valid_thumbnail E P square 4 8)) =
        replicate (length (thumb_attempts (snd (fetch_valid_thumbnail E P square 4 8)))) (1 / 2)"
      by simp
    then have "sleep_durations (snd (fetch_valid_thumbnail E P square 4 8)) = [1 / 2, 1 / 2, 1 / 2, 1 / 2]"
      by (simp add: at)
    with at show "thumb_attempts (snd (fetch_valid_thumbnail E P square 4 8)) = [0, 1, 2, 3] \<and>
      sleep_durations (snd (fetch_valid_thumbnail E P square 4 8)) = [1 / 2, 1 / 2, 1 / 2, 1 / 2]"
      by simp
  qed
  have c8: "length (draw_seeds (snd (get_random_valid_point E P 6))) \<le> 6"
    by (simp add: get_random_valid_point_def random_point_loop_draws)
  have c9: "(\<forall>i<6. random_draw E P i = Inr None) \<longrightarrow>
      fst (get_random_valid_point E P 6) = Inr (None, None, None, None)"
  proof
    assume "\<forall>i<6. random_draw E P i = Inr None"
    then have "\<forall>j<6. random_draw E P (0 + j) = Inr None" by simp
    from random_point_loop_none [OF this]
    show "fst (get_random_valid_point E P 6) = Inr (None, None, None, None)"
      by (simp add: get_random_valid_point_def)
  qed
  have c10: "snd (skip_handler E P w) =
     (case fst (get_random_valid_point E P 6) of Inl e \<Rightarrow> Raised e | Inr c \<Rightarrow> Rerun)"
    by (rule skip_handler_ctl)
  have c11: "fst (get_random_valid_point E P 6) = Inl e \<longrightarrow> snd (skip_handler E P w) = Raised e"
    by (simp add: c10)
  have c12: "fst (current w) \<noteq> None \<and>
    snd (fst (fetch_valid_thumbnail E P (snd (snd (snd (current w)))) 4 8)) = None \<longrightarrow>
      trace (fst (thumbnail_stage E P w)) =
        trace w @ snd (fetch_valid_thumbnail E P (snd (snd (snd (current w)))) 4 8) @
          [Sleep (3 / 10), WarnNoImage] @ snd (get_random_valid_point E P 6) \<and>
      (fst (get_random_valid_point E P 6) = Inl e \<longrightarrow> snd (thumbnail_stage E P w) = Raised e)"
    using stage by blast
  from c1 c2 c3 c4 c5 c6 c7 c8 c9 c10 c11 c12 show ?thesis by (intro conjI)
qed

theorem backend_failures_handling_witness:
  "fst (fetch_valid_thumbnail env_down example_params (Some (BufferBounds (RandomPoint 7) 1000)) 4 8)
     = (None, None) \<and>
   WarnNoImage \<in> set (trace (fst (thumbnail_stage env_no_coverage example_params fresh_world))) \<and>
   snd (thumbnail_stage env_no_coverage example_params fresh_world) = Rerun \<and>
   fst (get_random_valid_point env_down example_params 6) = Inl EEException \<and>
   sleep_durations (snd (fetch_valid_thumbnail env_down example_params
       (Some (BufferBounds (RandomPoint 7) 1000)) 4 8)) = [1 / 2, 1 / 2, 1 / 2, 1 / 2] \<and>
   snd (skip_handler env_down example_params fresh_world) = Raised EEException \<and>
   snd (skip_handler env_no_coverage example_params fresh_world) = Rerun \<and>
   snd (thumbnail_stage env_down example_params fresh_world) = Raised EEException"
proof -
  have f: "\<forall>i<4. \<exists>e. thumbnail_try env_down example_params (Some (BufferBounds (RandomPoint 7) 1000)) 8 i = Inl e"
    by (simp add: thumbnail_try_down)
  have c: "fst (current fresh_world) \<noteq> None" by (simp add: fresh_world_def)
  have "\<forall>j<4. \<forall>r. thumbnail_try env_no_coverage example_params (snd (snd (snd (current fresh_world)))) 8 (0 + j)
      \<noteq> Inr (Some r)"
    by (simp add: thumbnail_try_limited)
  from fetch_loop_fail [OF this]
  have n: "snd (fst (fetch_valid_thumbnail env_no_coverage example_params
      (snd (snd (snd (current fresh_world)))) 4 8)) = None"
    by (simp add: fetch_valid_thumbnail_def)
  have "\<forall>j<4. \<forall>r. thumbnail_try env_down example_params (snd (snd (snd (current fresh_world)))) 8 (0 + j)
      \<noteq> Inr (Some r)"
    by (simp add: thumbnail_try_down)
  from fetch_loop_fail [OF this]
  have n': "snd (fst (fetch_valid_thumbnail env_down example_params
      (snd (snd (snd (current fresh_world)))) 4 8)) = None"
    by (simp add: fetch_valid_thumbnail_def)
  have g: "\<forall>i<6. random_draw env_no_coverage example_params i = Inr None"
    by (simp add: random_draw_no_coverage)
  have d: "\<exists>j<6. random_draw env_down example_params j = Inl EEException \<and>
      (\<forall>m<j. random_draw env_down example_params m = Inr None)"
    by (rule exI [of _ 0]) (simp add: random_draw_down)
  note t1 = backend_failures_handling [where E = env_down and P = example_params and e = EEException
        and square = "Some (BufferBounds (RandomPoint 7) 1000)" and w = fresh_world]
  note t2 = backend_failures_handling [where E = env_no_coverage and P = example_params and w = fresh_world]
  from t1 f have a1: "fst (fetch_valid_thumbnail env_down example_params (Some (BufferBounds (RandomPoint 7) 1000)) 4 8)
     = (None, None)"
    and a5: "sleep_durations (snd (fetch_valid_thumbnail env_down example_params
       (Some (BufferBounds (RandomPoint 7) 1000)) 4 8)) = [1 / 2, 1 / 2, 1 / 2, 1 / 2]"
    by blast+
  from t1 d have a4: "fst (get_random_valid_point env_down example_params 6) = Inl EEException"
    by blast
  from t1 a4 have a6: "snd (skip_handler env_down example_params fresh_world) = Raised EEException"
    by blast
  from t1 a4 c n' have a8: "snd (thumbnail_stage env_down example_params fresh_world) = Raised EEException"
    by blast
  from t2 g have h: "fst (get_random_valid_point env_no_coverage example_params 6) = Inr (None, None, None, None)"
    by blast
  from t2 have "snd (skip_handler env_no_coverage example_params fresh_world) =
     (case fst (get_random_valid_point env_no_coverage example_params 6) of Inl e \<Rightarrow> Raised e | Inr c \<Rightarrow> Rerun)"
    by blast
  with h have a7: "snd (skip_handler env_no_coverage example_params fresh_world) = Rerun" by simp
  from t2 c n have "WarnNoImage \<in> set (trace (fst (thumbnail_stage env_no_coverage example_params fresh_world)))"
    and "snd (thumbnail_stage env_no_coverage example_params fresh_world) =
        (case fst (get_random_valid_point env_no_coverage example_params 6) of Inl e \<Rightarrow> Raised e | Inr c \<Rightarrow> Rerun)"
    by blast+
  with h have a2: "WarnNoImage \<in> set (trace (fst (thumbnail_stage env_no_coverage example_params fresh_world)))"
    and a3: "snd (thumbnail_stage env_no_coverage example_params fresh_world) = Rerun"
    by simp_all
  from a1 a2 a3 a4 a5 a6 a7 a8 show ?thesis by simp
qed

text \<open>
  C7 as stated (no failure of the backend leaves random-point search as an exception)
  fails: with a backend whose calls raise \<open>EEException\<close>, the first draw raises and
  the exception leaves \<open>get_random_valid_point\<close>, the skip handler and the warning
  branch of the thumbnail stage.
\<close>

theorem backend_exception_propagates_counterexample:
  "fst (get_random_valid_point env_down example_params 6) = Inl EEException \<and>
   snd (skip_handler env_down example_params fresh_world) = Raised EEException \<and>
   snd (thumbnail_stage env_down example_params fresh_world) = Raised EEException"
proof -
  have "\<exists>j<6. random_draw env_down example_params (0 + j) = Inl EEException \<and>
      (\<forall>m<j. random_draw env_down example_params (0 + m) = Inr None)"
    by (rule exI [of _ 0]) (simp add: random_draw_down)
  then have g: "fst (get_random_valid_point env_down example_params 6) = Inl EEException"
    unfolding get_random_valid_point_def by (simp only: random_point_loop_Inl)
  have c: "fst (current fresh_world) \<noteq> None" by (simp add: fresh_world_def)
  have "\<forall>j<4. \<forall>r. thumbnail_try env_down example_params (snd (snd (snd (current fresh_world)))) 8 (0 + j)
      \<noteq> Inr (Some r)"
    by (simp add: thumbnail_try_down)
  from fetch_loop_fail [OF this]
  have n: "snd (fst (fetch_valid_thumbnail env_down example_params
      (snd (snd (snd (current fresh_world)))) 4 8)) = None"
    by (simp add: fetch_valid_thumbnail_def)
  show ?thesis
    by (simp add: g skip_handler_ctl thumbnail_stage_no_image(2) [OF c n])
qed

text \<open>
  C8. In the Sentinel sampler, Submit with a caption that strips to the empty string
  only adds the warning: records, both files and the current point stay as they were
  and no sample call is made. The click picker has no such guard: with the same
  caption it calls the backend, appends one record per feature with the empty caption
  and rewrites the files.
\<close>

theorem blank_caption_guard:
  assumes "py_strip cap = []"
  shows
    "sentinel_submit E P cap w = (w\<lparr>trace := trace w @ [WarnNoCaption]\<rparr>, Continue) \<and>
     ((\<forall>f\<in>set feats. 2 \<le> length (coordinates f)) \<and>
      sample_info E (Some (BufferBounds (Point x y) (THUMB_METERS P))) (SAMPLE_SCALE P) None = Inr feats \<longrightarrow>
        (let w' = fst (picker_save E P x y cap w) in
           length (records w') = length (records w) + length feats \<and>
           (\<forall>r\<in>set (drop (length (records w)) (records w')). caption r = []) \<and>
           json_file w' = Content (records w') \<and>
           trace w' = trace w @ [SampleCall, WriteJson, WriteParquet, SavedMsg (length feats) cap]))"
proof (intro conjI impI)
  show "sentinel_submit E P cap w = (w\<lparr>trace := trace w @ [WarnNoCaption]\<rparr>, Continue)"
    using assms by (rule sentinel_submit_blank)
next
  assume "(\<forall>f\<in>set feats. 2 \<le> length (coordinates f)) \<and>
      sample_info E (Some (BufferBounds (Point x y) (THUMB_METERS P))) (SAMPLE_SCALE P) None = Inr feats"
  then have wf: "\<forall>f\<in>set feats. 2 \<le> length (coordinates f)"
    and s: "sample_info E (Some (BufferBounds (Point x y) (THUMB_METERS P))) (SAMPLE_SCALE P) None = Inr feats"
    by simp_all
  show "let w' = fst (picker_save E P x y cap w) in
           length (records w') = length (records w) + length feats \<and>
           (\<forall>r\<in>set (drop (length (records w)) (records w')). caption r = []) \<and>
           json_file w' = Content (records w') \<and>
           trace w' = trace w @ [SampleCall, WriteJson, WriteParquet, SavedMsg (length feats) cap]"
    using assms by (simp add: picker_save_ok [OF wf s] caption_built)
qed

theorem blank_caption_guard_witness:
  "sentinel_submit env_up example_params blank_caption fresh_world =
     (fresh_world\<lparr>trace := [WarnNoCaption]\<rparr>, Continue) \<and>
   length (records (fst (picker_save env_up example_params (- 98) 39 blank_caption fresh_world))) = 2 \<and>
   caption (records (fst (picker_save env_up example_params (- 98) 39 blank_caption fresh_world)) ! 0) = [] \<and>
   trace (fst (picker_save env_up example_params (- 98) 39 blank_caption fresh_world)) =
     [SampleCall, WriteJson, WriteParquet, SavedMsg 2 blank_caption]"
proof -
  have s1: "sample_info env_up (Some (BufferBounds (Point (- 98) 39) (THUMB_METERS example_params)))
      (SAMPLE_SCALE example_params) None = Inr [feature_two_bands, feature_no_bands]"
    by (simp add: env_up_def)
  have r0: "records fresh_world = []" "trace fresh_world = []" by (simp_all add: fresh_world_def)
  note t = blank_caption_guard [OF blank_caption_strip, of env_up example_params fresh_world
      "[feature_two_bands, feature_no_bands]" "- 98" 39]
  from t have a: "sentinel_submit env_up example_params blank_caption fresh_world =
     (fresh_world\<lparr>trace := [WarnNoCaption]\<rparr>, Continue)"
    by (simp add: r0)
  from t example_features_wf s1 have b:
    "length (records (fst (picker_save env_up example_params (- 98) 39 blank_caption fresh_world))) = 2"
    "\<forall>r\<in>set (records (fst (picker_save env_up example_params (- 98) 39 blank_caption fresh_world))).
       caption r = []"
    "trace (fst (picker_save env_up example_params (- 98) 39 blank_caption fresh_world)) =
     [SampleCall, WriteJson, WriteParquet, SavedMsg 2 blank_caption]"
    by (simp_all add: Let_def r0)
  from b(1) have "records (fst (picker_save env_up example_params (- 98) 39 blank_caption fresh_world)) ! 0
      \<in> set (records (fst (picker_save env_up example_params (- 98) 39 blank_caption fresh_world)))"
    by simp
  with b(2) have c: "caption (records (fst (picker_save env_up example_params (- 98) 39 blank_caption fresh_world)) ! 0) = []"
    by blast
  from a b(1) c b(3) show ?thesis by simp
qed

text \<open>
  C9. Every record a save appends, in either tool, has the stripped caption: the
  caption as typed without the whitespace at its two ends, so it neither starts nor
  ends with whitespace; and when the records loaded had no surrounding whitespace in
  their captions, the records after the save have none either.
\<close>

theorem saved_caption_is_stripped:
  "(\<forall>r\<in>set (drop (length (records w)) (records (fst (picker_save E P x y cap w)))).
      caption r = py_strip cap) \<and>
   (\<forall>r\<in>set (drop (length (records w)) (records (fst (sentinel_submit E P cap w)))).
      caption r = py_strip cap) \<and>
   unpadded (py_strip cap) \<and>
   (\<exists>a b. cap = a @ py_strip cap @ b \<and> (\<forall>c\<in>set a. py_isspace c) \<and> (\<forall>c\<in>set b. py_isspace c)) \<and>
   ((\<forall>r\<in>set (records w). unpadded (caption r)) \<longrightarrow>
      (\<forall>r\<in>set (records (fst (picker_save E P x y cap w))). unpadded (caption r)) \<and>
      (\<forall>r\<in>set (records (fst (sentinel_submit E P cap w))). unpadded (caption r)))"
proof -
  obtain fs where p: "records (fst (picker_save E P x y cap w)) = records w @ map (built cap P) fs"
    by (rule picker_save_effect)
  obtain gs where q: "records (fst (sentinel_submit E P cap w)) = records w @ map (built cap P) gs"
    by (rule sentinel_submit_effect)
  have u: "unpadded (py_strip cap)"
    using py_strip_ends [of cap] by (auto simp: unpadded_def)
  have a: "\<forall>r\<in>set (drop (length (records w)) (records (fst (picker_save E P x y cap w)))).
      caption r = py_strip cap"
    by (auto simp: p caption_built)
  have b: "\<forall>r\<in>set (drop (length (records w)) (records (fst (sentinel_submit E P cap w)))).
      caption r = py_strip cap"
    by (auto simp: q caption_built)
  have c: "(\<forall>r\<in>set (records w). unpadded (caption r)) \<longrightarrow>
      (\<forall>r\<in>set (records (fst (picker_save E P x y cap w))). unpadded (caption r)) \<and>
      (\<forall>r\<in>set (records (fst (sentinel_submit E P cap w))). unpadded (caption r))"
    using u by (auto simp: p q caption_built)
  from a b u py_strip_split [of cap] c show ?thesis by blast
qed

theorem saved_caption_is_stripped_witness:
  "caption (records (fst (picker_save env_up example_params (- 98) 39 padded_caption fresh_world)) ! 0) =
     str ''dry lake'' \<and>
   caption (records (fst (sentinel_submit env_up example_params padded_caption fresh_world)) ! 1) =
     str ''dry lake'' \<and>
   unpadded (str ''dry lake'')"
proof -
  have s1: "sample_info env_up (Some (BufferBounds (Point (- 98) 39) (THUMB_METERS example_params)))
      (SAMPLE_SCALE example_params) None = Inr [feature_two_bands, feature_no_bands]"
    by (simp add: env_up_def)
  have s2: "sample_info env_up (snd (snd (snd (current fresh_world)))) (SAMPLE_SCALE example_params) (Some 100)
        = Inr [feature_two_bands, feature_no_bands]"
    by (simp add: env_up_def)
  have ne: "py_strip padded_caption \<noteq> []"
    by (simp add: padded_caption_strip str_def)
  have r0: "records fresh_world = []" by (simp add: fresh_world_def)
  have p: "length (records (fst (picker_save env_up example_params (- 98) 39 padded_caption fresh_world))) = 2"
    by (simp add: picker_save_ok [OF example_features_wf s1] r0)
  have q: "length (records (fst (sentinel_submit env_up example_params padded_caption fresh_world))) = 2"
    by (simp add: sentinel_submit_ok [OF example_features_wf s2 ne] r0)
  have m1: "records (fst (picker_save env_up example_params (- 98) 39 padded_caption fresh_world)) ! 0
      \<in> set (drop (length (records fresh_world))
          (records (fst (picker_save env_up example_params (- 98) 39 padded_caption fresh_world))))"
    using p by (simp add: r0)
  have m2: "records (fst (sentinel_submit env_up example_params padded_caption fresh_world)) ! 1
      \<in> set (drop (length (records fresh_world))
          (records (fst (sentinel_submit env_up example_params padded_caption fresh_world))))"
    using q by (simp add: r0)
  note t = saved_caption_is_stripped [of fresh_world env_up example_params "- 98" 39 padded_caption]
  from t m1 have a: "caption (records (fst (picker_save env_up example_params (- 98) 39 padded_caption fresh_world)) ! 0)
      = py_strip padded_caption"
    by blast
  from t m2 have b: "caption (records (fst (sentinel_submit env_up example_params padded_caption fresh_world)) ! 1)
      = py_strip padded_caption"
    by blast
  from t have c: "unpadded (py_strip padded_caption)" by blast
  from a b c show ?thesis by (simp add: padded_caption_strip)
qed

text \<open>
  C10. Building a record is total in the properties of a feature: for a feature with
  both coordinates and any properties, the record has 64 embedding values, the value of
  each band at its position and \<open>None\<close> where the band is missing; and a save over
  such features, whatever bands they lack, appends them all and writes the files.
\<close>

theorem missing_band_gives_None:
  "(2 \<le> length (coordinates f) \<longrightarrow>
      (\<exists>r. make_record cap P f = Inr r \<and> length (alphaearth r) = 64 \<and>
           (\<forall>i<64. alphaearth r ! i = properties f (band_names ! i)) \<and>
           (\<forall>i<64. band_names ! i \<notin> dom (properties f) \<longrightarrow> alphaearth r ! i = None))) \<and>
   ((\<forall>f\<in>set feats. 2 \<le> length (coordinates f)) \<and>
    sample_info E (Some (BufferBounds (Point x y) (THUMB_METERS P))) (SAMPLE_SCALE P) None = Inr feats \<longrightarrow>
      snd (picker_save E P x y cap w) = Continue \<and>
      length (records (fst (picker_save E P x y cap w))) = length (records w) + length feats \<and>
      json_file (fst (picker_save E P x y cap w)) = Content (records (fst (picker_save E P x y cap w)))) \<and>
   ((\<forall>f\<in>set feats. 2 \<le> length (coordinates f)) \<and> py_strip cap \<noteq> [] \<and>
    sample_info E (snd (snd (snd (current w)))) (SAMPLE_SCALE P) (Some 100) = Inr feats \<longrightarrow>
      length (records (fst (sentinel_submit E P cap w))) = length (records w) + length feats \<and>
      json_file (fst (sentinel_submit E P cap w)) = Content (records (fst (sentinel_submit E P cap w))))"
proof (intro conjI impI)
  assume wf: "2 \<le> length (coordinates f)"
  have "make_record cap P f = Inr (built cap P f)" using wf by (rule make_record_wf)
  moreover have "length (alphaearth (built cap P f)) = 64"
    by (simp add: alphaearth_built length_band_names)
  moreover have n: "\<forall>i<64. alphaearth (built cap P f) ! i = properties f (band_names ! i)"
    by (simp add: alphaearth_built length_band_names)
  moreover have "\<forall>i<64. band_names ! i \<notin> dom (properties f) \<longrightarrow> alphaearth (built cap P f) ! i = None"
    using n by (auto simp: domIff)
  ultimately show "\<exists>r. make_record cap P f = Inr r \<and> length (alphaearth r) = 64 \<and>
           (\<forall>i<64. alphaearth r ! i = properties f (band_names ! i)) \<and>
           (\<forall>i<64. band_names ! i \<notin> dom (properties f) \<longrightarrow> alphaearth r ! i = None)"
    by blast
next
  assume a: "(\<forall>f\<in>set feats. 2 \<le> length (coordinates f)) \<and>
    sample_info E (Some (BufferBounds (Point x y) (THUMB_METERS P))) (SAMPLE_SCALE P) None = Inr feats"
  then have wf: "\<forall>f\<in>set feats. 2 \<le> length (coordinates f)"
    and s: "sample_info E (Some (BufferBounds (Point x y) (THUMB_METERS P))) (SAMPLE_SCALE P) None = Inr feats"
    by simp_all
  show "snd (picker_save E P x y cap w) = Continue"
    and "length (records (fst (picker_save E P x y cap w))) = length (records w) + length feats"
    and "json_file (fst (picker_save E P x y cap w)) = Content (records (fst (picker_save E P x y cap w)))"
    by (simp_all add: picker_save_ok [OF wf s])
next
  assume a: "(\<forall>f\<in>set feats. 2 \<le> length (coordinates f)) \<and> py_strip cap \<noteq> [] \<and>
    sample_info E (snd (snd (snd (current w)))) (SAMPLE_SCALE P) (Some 100) = Inr feats"
  then have wf: "\<forall>f\<in>set feats. 2 \<le> length (coordinates f)"
    and ne: "py_strip cap \<noteq> []"
    and s: "sample_info E (snd (snd (snd (current w)))) (SAMPLE_SCALE P) (Some 100) = Inr feats"
    by simp_all
  show "length (records (fst (sentinel_submit E P cap w))) = length (records w) + length feats"
    and "json_file (fst (sentinel_submit E P cap w)) = Content (records (fst (sentinel_submit E P cap w)))"
    by (simp_all add: sentinel_submit_ok [OF wf s ne])
qed

theorem missing_band_gives_None_witness:
  "(\<exists>r. make_record padded_caption example_params feature_two_bands = Inr r \<and>
        alphaearth r ! 0 = Some (1 / 4) \<and> alphaearth r ! 1 = None \<and> alphaearth r ! 63 = Some (- 1 / 8)) \<and>
   (\<exists>r. make_record padded_caption example_params feature_no_bands = Inr r \<and>
        length (alphaearth r) = 64 \<and> alphaearth r ! 17 = None) \<and>
   snd (picker_save env_up example_params (- 98) 39 padded_caption fresh_world) = Continue"
proof -
  have s1: "sample_info env_up (Some (BufferBounds (Point (- 98) 39) (THUMB_METERS example_params)))
      (SAMPLE_SCALE example_params) None = Inr [feature_two_bands, feature_no_bands]"
    by (simp add: env_up_def)
  have c1: "2 \<le> length (coordinates feature_two_bands)" by (simp add: feature_two_bands_def)
  have c2: "2 \<le> length (coordinates feature_no_bands)" by (simp add: feature_no_bands_def)
  have b1: "band_names ! 1 = str ''A01''"
    by (simp add: band_names_nth fmt_02d_def dec_digits.simps str_def)
  have p0: "properties feature_two_bands (band_names ! 0) = Some (1 / 4)"
    by (simp add: band_name_first feature_two_bands_def str_def)
  have p1: "properties feature_two_bands (band_names ! 1) = None"
    unfolding b1 by (simp add: feature_two_bands_def str_def)
  have p63: "properties feature_two_bands (band_names ! 63) = Some (- 1 / 8)"
    by (simp add: band_name_last feature_two_bands_def str_def)
  have d: "band_names ! 17 \<notin> dom (properties feature_no_bands)"
    by (simp add: feature_no_bands_def)
  from missing_band_gives_None [of feature_two_bands padded_caption example_params] c1
  obtain r where r: "make_record padded_caption example_params feature_two_bands = Inr r"
    "\<forall>i<64. alphaearth r ! i = properties feature_two_bands (band_names ! i)"
    by blast
  from r(2) have "alphaearth r ! 0 = properties feature_two_bands (band_names ! 0)"
    "alphaearth r ! 1 = properties feature_two_bands (band_names ! 1)"
    "alphaearth r ! 63 = properties feature_two_bands (band_names ! 63)"
    by simp_all
  with r(1) p0 p1 p63 have a: "\<exists>r. make_record padded_caption example_params feature_two_bands = Inr r \<and>
        alphaearth r ! 0 = Some (1 / 4) \<and> alphaearth r ! 1 = None \<and> alphaearth r ! 63 = Some (- 1 / 8)"
    by simp
  from missing_band_gives_None [of feature_no_bands padded_caption example_params] c2
  obtain r' where r': "make_record padded_caption example_params feature_no_bands = Inr r'"
    "length (alphaearth r') = 64"
    "\<forall>i<64. band_names ! i \<notin> dom (properties feature_no_bands) \<longrightarrow> alphaearth r' ! i = None"
    by blast
  from r'(3) d have "alphaearth r' ! 17 = None" by simp
  with r'(1,2) have b: "\<exists>r. make_record padded_caption example_params feature_no_bands = Inr r \<and>
        length (alphaearth r) = 64 \<and> alphaearth r ! 17 = None"
    by simp
  from missing_band_gives_None [where feats = "[feature_two_bands, feature_no_bands]" and E = env_up
      and x = "- 98" and y = 39 and P = example_params and cap = padded_caption and w = fresh_world]
    example_features_wf s1
  have c: "snd (picker_save env_up example_params (- 98) 39 padded_caption fresh_world) = Continue"
    by blast
  from a b c show ?thesis by simp
qed

end
